theory Spec2Isabelle
  imports Main "HOL-Library.Word" "HOL-Library.AList"
begin

unbundle bit_operations_syntax

section \<open>The request-interception proxy of shell/browser/net/proxying_url_loader_factory.cc\<close>

text \<open>
  The development embeds \<^verbatim>\<open>ProxyingURLLoaderFactory\<close> and its nested class
  \<^verbatim>\<open>InProgressRequest\<close>. A C++ member \<^verbatim>\<open>name_\<close> is the record field \<open>name\<close>
  (an Isabelle constant cannot end in an underscore). Every method is a function from the
  object before the call to the calls it makes on its collaborators, in order (the log),
  and the object after the call. \<^verbatim>\<open>DCHECK\<close>s are compiled out, as in a release build.
\<close>

subsection \<open>Values of the Chromium libraries\<close>

text \<open>
  A \<^verbatim>\<open>GURL\<close> is its canonical spec; the empty string is the empty URL \<^verbatim>\<open>GURL()\<close>.
  The scheme is the text before the first colon.
\<close>

type_synonym GURL = string

definition is_empty :: "GURL \<Rightarrow> bool" where
  "is_empty u = (u = [])"

definition scheme :: "GURL \<Rightarrow> string" where
  "scheme u = takeWhile (\<lambda>c. c \<noteq> CHR '':'') u"

definition SchemeIsFile :: "GURL \<Rightarrow> bool" where
  "SchemeIsFile u = (scheme u = ''file'')"

text \<open>\<^verbatim>\<open>url::Origin\<close>: the default-constructed origin is opaque.\<close>

datatype Origin = OpaqueOrigin | TupleOrigin string

text \<open>
  \<^verbatim>\<open>net::HttpRequestHeaders\<close> is a vector of key/value pairs whose keys are compared
  without regard to ASCII case. \<^verbatim>\<open>SetHeader\<close> overwrites the value of a key that is
  present and appends otherwise, \<^verbatim>\<open>RemoveHeader\<close> erases the entry of the key,
  \<^verbatim>\<open>MergeFrom\<close> sets every header of the other object.
\<close>

type_synonym HttpRequestHeaders = "(string \<times> string) list"

definition ToLowerASCII :: "char \<Rightarrow> char" where
  "ToLowerASCII c =
     (let n = (of_char c :: nat) in if 65 \<le> n \<and> n \<le> 90 then char_of (n + 32) else c)"

definition EqualsCaseInsensitiveASCII :: "string \<Rightarrow> string \<Rightarrow> bool" where
  "EqualsCaseInsensitiveASCII a b = (map ToLowerASCII a = map ToLowerASCII b)"

fun GetHeader :: "string \<Rightarrow> HttpRequestHeaders \<Rightarrow> string option" where
  "GetHeader k [] = None"
| "GetHeader k ((k', v) # hs) =
     (if EqualsCaseInsensitiveASCII k k' then Some v else GetHeader k hs)"

fun SetHeader :: "string \<Rightarrow> string \<Rightarrow> HttpRequestHeaders \<Rightarrow> HttpRequestHeaders" where
  "SetHeader k v [] = [(k, v)]"
| "SetHeader k v ((k', v') # hs) =
     (if EqualsCaseInsensitiveASCII k k' then (k', v) # hs else (k', v') # SetHeader k v hs)"

fun RemoveHeader :: "string \<Rightarrow> HttpRequestHeaders \<Rightarrow> HttpRequestHeaders" where
  "RemoveHeader k [] = []"
| "RemoveHeader k ((k', v') # hs) =
     (if EqualsCaseInsensitiveASCII k k' then hs else (k', v') # RemoveHeader k hs)"

definition MergeFrom :: "HttpRequestHeaders \<Rightarrow> HttpRequestHeaders \<Rightarrow> HttpRequestHeaders" where
  "MergeFrom other hs = fold (\<lambda>(k, v). SetHeader k v) other hs"

text \<open>
  \<^verbatim>\<open>net::HttpResponseHeaders\<close> is built from a raw header block. Its parser, its
  queries and \<^verbatim>\<open>net::HttpUtil::AssembleRawHeaders\<close> are not code of this repository:
  the object is the block it was built from, and the library functions the proxy calls
  are the fields of \<open>Net\<close>, as are the two load-option bits of the URL loader interface.
\<close>

datatype HttpResponseHeaders = HttpResponseHeaders string

record Net =
  AssembleRawHeaders :: "string \<Rightarrow> string"
  raw_headers :: "HttpResponseHeaders \<Rightarrow> string"
  response_code :: "HttpResponseHeaders \<Rightarrow> int"
  IsRedirect :: "HttpResponseHeaders \<Rightarrow> string option"
  Origin_Create :: "GURL \<Rightarrow> Origin"
  IsSameOriginWith :: "Origin \<Rightarrow> Origin \<Rightarrow> bool"
  kURLLoadOptionSynchronous :: "32 word"
  kURLLoadOptionUseHeaderClient :: "32 word"



text \<open>The net error codes the proxy compares against (net/base/net_error_list.h).\<close>

definition net_OK :: int where "net_OK = 0"
definition ERR_IO_PENDING :: int where "ERR_IO_PENDING = - 1"
definition ERR_ABORTED :: int where "ERR_ABORTED = - 3"
definition ERR_BLOCKED_BY_CLIENT :: int where "ERR_BLOCKED_BY_CLIENT = - 20"

definition kGetMethod :: string where "kGetMethod = ''GET''"

record ResourceRequest =
  url :: GURL
  "method" :: string
  headers :: HttpRequestHeaders
  request_body :: "string option"
  site_for_cookies :: GURL
  referrer :: GURL
  referrer_policy :: nat
  request_initiator :: "Origin option"
  render_frame_id :: int

text \<open>The header object of a response head is the field \<open>response_headers\<close>.\<close>

record URLResponseHead =
  response_headers :: "HttpResponseHeaders option"
  encoded_data_length :: int

definition URLResponseHead_New :: URLResponseHead where
  "URLResponseHead_New = \<lparr>response_headers = None, encoded_data_length = - 1\<rparr>"

record URLLoaderCompletionStatus =
  error_code :: int
  exists_in_cache :: bool

definition URLLoaderCompletionStatus :: "int \<Rightarrow> URLLoaderCompletionStatus" where
  "URLLoaderCompletionStatus code = \<lparr>error_code = code, exists_in_cache = False\<rparr>"

record RedirectInfo =
  status_code :: int
  new_method :: string
  new_url :: GURL
  new_site_for_cookies :: GURL
  new_referrer :: string
  new_referrer_policy :: nat

definition RedirectInfo_default :: RedirectInfo where
  "RedirectInfo_default =
     \<lparr>status_code = - 1, new_method = [], new_url = [], new_site_for_cookies = [],
      new_referrer = [], new_referrer_policy = 0\<rparr>"

text \<open>
  \<^verbatim>\<open>extensions::WebRequestInfo\<close>, built from the arguments \<^verbatim>\<open>UpdateRequestInfo\<close>
  passes to \<^verbatim>\<open>WebRequestInfoInitParams\<close>; \<open>response\<close> is what
  \<^verbatim>\<open>AddResponseInfoFromResourceResponse\<close> records.
\<close>

record WebRequestInfo =
  info_id :: int
  info_render_process_id :: int
  info_frame_id :: int
  info_routing_id :: int
  info_request :: ResourceRequest
  is_download :: bool
  is_async :: bool
  is_service_worker_script :: bool
  response :: "URLResponseHead option"

definition AddResponseInfoFromResourceResponse ::
  "URLResponseHead \<Rightarrow> WebRequestInfo \<Rightarrow> WebRequestInfo" where
  "AddResponseInfoFromResourceResponse head i = i\<lparr>response := Some head\<rparr>"

subsection \<open>The collaborators: listener API, issuer, transport\<close>

text \<open>
  The listener API (\<^verbatim>\<open>WebRequestAPI\<close>) is consumed through its hooks. A blocking hook
  returns a net error code and writes its out-parameters: the redirect URL, the request
  headers, the override headers. When the code is \<open>ERR_IO_PENDING\<close> the API runs the
  continuation later, after it has written the out-parameters; the continuations are the
  \<^verbatim>\<open>ContinueTo...\<close> methods below. A hook is handed \<^verbatim>\<open>&info_.value()\<close>, the
  request info itself. \<open>HasExtraHeadersListenerForRequest\<close> is the query named in the
  TODO of \<^verbatim>\<open>UpdateRequestInfo\<close>, which the proxy never makes.
\<close>

record WebRequestAPI =
  HasListener :: bool
  HasExtraHeadersListenerForRequest :: "WebRequestInfo option \<Rightarrow> bool"
  api_OnBeforeRequest :: "WebRequestInfo \<Rightarrow> ResourceRequest \<Rightarrow> int \<times> GURL"
  api_OnBeforeSendHeaders ::
    "WebRequestInfo \<Rightarrow> ResourceRequest \<Rightarrow> int \<times> HttpRequestHeaders"
  api_OnHeadersReceived ::
    "WebRequestInfo \<Rightarrow> ResourceRequest \<Rightarrow> HttpResponseHeaders option
       \<Rightarrow> int \<times> HttpResponseHeaders option \<times> GURL"

text \<open>
  The log: every call the proxy makes on the issuer (\<^verbatim>\<open>target_client_\<close>), on the
  transport (\<^verbatim>\<open>target_factory_\<close>, \<^verbatim>\<open>target_loader_\<close>, the two header-client reply
  callbacks), on the listener API and on the scheme handlers.
\<close>

datatype Effect =
    Client_OnComplete URLLoaderCompletionStatus
  | Client_OnReceiveRedirect RedirectInfo URLResponseHead
  | Client_OnReceiveResponse URLResponseHead
  | TargetFactory_CreateLoaderAndStart int int "32 word" ResourceRequest
  | Loader_FollowRedirect "string list" HttpRequestHeaders "GURL option"
  | Reply_OnBeforeSendHeaders int "HttpRequestHeaders option"
  | Reply_OnHeadersReceived int "string option" GURL
  | Api_OnBeforeRequest WebRequestInfo ResourceRequest
  | Api_OnBeforeSendHeaders WebRequestInfo ResourceRequest
  | Api_OnSendHeaders WebRequestInfo ResourceRequest HttpRequestHeaders
  | Api_OnHeadersReceived WebRequestInfo ResourceRequest "HttpResponseHeaders option"
  | Api_OnResponseStarted WebRequestInfo ResourceRequest
  | Api_OnBeforeRedirect WebRequestInfo ResourceRequest GURL
  | Api_OnCompleted WebRequestInfo ResourceRequest int
  | Api_OnErrorOccurred WebRequestInfo ResourceRequest int
  | InterceptedHandler_Run nat ResourceRequest
  | CreateAsarURLLoader ResourceRequest

fun is_terminal_event :: "Effect \<Rightarrow> bool" where
  "is_terminal_event (Client_OnComplete s) = True"
| "is_terminal_event e = False"

fun is_transport_call :: "Effect \<Rightarrow> bool" where
  "is_transport_call (TargetFactory_CreateLoaderAndStart a b c d) = True"
| "is_transport_call (Loader_FollowRedirect a b c) = True"
| "is_transport_call e = False"

fun is_redirect_event :: "Effect \<Rightarrow> bool" where
  "is_redirect_event (Client_OnReceiveRedirect i h) = True"
| "is_redirect_event e = False"

subsection \<open>The Request Record\<close>

text \<open>A mojo binding or receiver: bound or not, and whether its incoming calls are paused.\<close>

record Binding =
  is_bound :: bool
  paused :: bool

definition Unbound :: Binding where
  "Unbound = \<lparr>is_bound = False, paused = False\<rparr>"

definition Bound :: Binding where
  "Bound = \<lparr>is_bound = True, paused = False\<rparr>"

definition Pause :: "Binding \<Rightarrow> Binding" where
  "Pause b = b\<lparr>paused := True\<rparr>"

definition Resume :: "Binding \<Rightarrow> Binding" where
  "Resume b = b\<lparr>paused := False\<rparr>"

definition PauseIfBound :: "Binding \<Rightarrow> Binding" where
  "PauseIfBound b = (if is_bound b then Pause b else b)"

definition ResumeIfBound :: "Binding \<Rightarrow> Binding" where
  "ResumeIfBound b = (if is_bound b then Resume b else b)"

record FollowRedirectParams =
  params_removed_headers :: "string list"
  params_modified_headers :: HttpRequestHeaders
  params_new_url :: "GURL option"

text \<open>
  \<open>current_response\<close> is \<open>None\<close> when the pointer is null, which it is after it has
  been moved into a call on the issuer. \<open>target_loader_is_bound\<close> is the binding state of
  \<^verbatim>\<open>target_loader_\<close>; the two callback fields say whether a reply callback of the header
  client is held. \<open>info\<close> is the optional that \<^verbatim>\<open>UpdateRequestInfo\<close> fills at both
  entry points; a method that reaches \<^verbatim>\<open>info_.value()\<close> or \<^verbatim>\<open>info_->\<close> while it is
  empty does not get past that point. The issuer pipe \<^verbatim>\<open>target_client_\<close> is bound for
  the whole life of the record; its connection-error handler is a call of
  \<^verbatim>\<open>OnRequestError\<close> with \<open>ERR_ABORTED\<close>.

  \<open>completed_history\<close> is not a member of the class. It is the history of the member
  \<^verbatim>\<open>request_completed_\<close>: the values the flag has been given, oldest first, beginning
  with the initial one. It is extended exactly where the source assigns the flag, in
  \<^verbatim>\<open>RestartInternal\<close> (line 94) and in \<^verbatim>\<open>ContinueToBeforeRedirect\<close> (line 539), and
  nothing reads it.
\<close>

record InProgressRequest =
  request :: ResourceRequest
  original_initiator :: "Origin option"
  request_id :: int
  routing_id :: int
  network_service_request_id :: int
  options :: "32 word"
  info :: "WebRequestInfo option"
  current_response :: "URLResponseHead option"
  override_headers :: "HttpResponseHeaders option"
  redirect_url :: GURL
  request_completed :: bool
  completed_history :: "bool list"
  current_request_uses_header_client :: bool
  has_any_extra_headers_listeners :: bool
  proxied_client_binding :: Binding
  header_client_receiver :: Binding
  target_loader_is_bound :: bool
  pending_follow_redirect_params :: "FollowRedirectParams option"
  on_before_send_headers_callback :: bool
  on_headers_received_callback :: bool

text \<open>
  What a method leaves behind: the record, or the call \<^verbatim>\<open>factory_->RemoveRequest\<close> with
  its two arguments (which deletes the record), or the end of the run at a dereference of
  the null \<open>current_response\<close> or at a use of the empty \<open>info\<close>.
\<close>

datatype Outcome = Alive InProgressRequest | RemoveRequested int int | Crashed

type_synonym Result = "Effect list \<times> Outcome"

definition emit :: "Effect list \<Rightarrow> Result \<Rightarrow> Result" where
  "emit es res = (es @ fst res, snd res)"

subsection \<open>The Proxy Factory\<close>

text \<open>
  \<open>requests\<close> and \<open>network_request_id_to_web_request_id\<close> are the two \<^verbatim>\<open>std::map\<close>s,
  as association lists with one entry per key; \<open>intercepted_handlers\<close> maps a scheme to
  the protocol type of its handler; \<open>proxy_receivers\<close> counts the issuer-facing receivers.
  The counter \<open>g_request_id\<close> is the file-level variable of the source.
\<close>

record Factory =
  web_request_api :: WebRequestAPI
  intercepted_handlers :: "(string \<times> nat) list"
  ShouldEnableOutOfBlinkCors :: bool
  render_process_id :: int
  loader_factory_type_is_service_worker_script :: bool
  target_factory_is_bound :: bool
  proxy_receivers :: nat
  url_loader_header_client_receiver_is_bound :: bool
  requests :: "(int \<times> InProgressRequest) list"
  network_request_id_to_web_request_id :: "(int \<times> int) list"
  g_request_id :: int

definition IsForServiceWorkerScript :: "Factory \<Rightarrow> bool" where
  "IsForServiceWorkerScript factory = loader_factory_type_is_service_worker_script factory"

text \<open>What is left of the factory after a call: \<^verbatim>\<open>delete this\<close> frees it.\<close>

datatype World = Running Factory | Freed | ProcessCrashed

definition MaybeDeleteThis :: "Factory \<Rightarrow> World" where
  "MaybeDeleteThis factory =
     (if target_factory_is_bound factory \<or> requests factory \<noteq> [] then Running factory
      else Freed)"

definition RemoveRequest :: "int \<Rightarrow> int \<Rightarrow> Factory \<Rightarrow> World" where
  "RemoveRequest nsr_id req_id factory =
     MaybeDeleteThis
       (factory\<lparr>network_request_id_to_web_request_id :=
                  AList.delete nsr_id (network_request_id_to_web_request_id factory),
                requests := AList.delete req_id (requests factory)\<rparr>)"

text \<open>\<^verbatim>\<open>std::map::emplace\<close> inserts only when the key is absent.\<close>

definition emplace :: "'k \<Rightarrow> 'v \<Rightarrow> ('k \<times> 'v) list \<Rightarrow> ('k \<times> 'v) list" where
  "emplace k v m = (case map_of m k of None \<Rightarrow> m @ [(k, v)] | Some old \<Rightarrow> m)"

definition OnTargetFactoryError :: "Factory \<Rightarrow> World" where
  "OnTargetFactoryError factory =
     MaybeDeleteThis (factory\<lparr>target_factory_is_bound := False, proxy_receivers := 0\<rparr>)"

definition OnProxyBindingError :: "Factory \<Rightarrow> World" where
  "OnProxyBindingError factory =
     (let remaining = proxy_receivers factory - 1 in
      MaybeDeleteThis
        (factory\<lparr>proxy_receivers := remaining,
                 target_factory_is_bound :=
                   (if remaining = 0 then False else target_factory_is_bound factory)\<rparr>))"

subsection \<open>Methods of the Request Record\<close>

text \<open>
  In \<^verbatim>\<open>OnRequestError\<close> the completion is sent to the issuer before the argument
  \<^verbatim>\<open>&info_.value()\<close> of the listener notification is evaluated.
\<close>

definition OnRequestError ::
  "Factory \<Rightarrow> URLLoaderCompletionStatus \<Rightarrow> InProgressRequest \<Rightarrow> Result" where
  "OnRequestError factory status r =
     (if \<not> request_completed r
      then case info r of
             None \<Rightarrow> ([Client_OnComplete status], Crashed)
           | Some i \<Rightarrow>
               ([Client_OnComplete status,
                 Api_OnErrorOccurred i (request r) (error_code status)],
                RemoveRequested (network_service_request_id r) (request_id r))
      else ([], RemoveRequested (network_service_request_id r) (request_id r)))"

definition ContinueToBeforeRedirect ::
  "Factory \<Rightarrow> RedirectInfo \<Rightarrow> int \<Rightarrow> InProgressRequest \<Rightarrow> Result" where
  "ContinueToBeforeRedirect factory redirect_info code r =
     (if code \<noteq> net_OK then OnRequestError factory (URLLoaderCompletionStatus code) r
      else case info r of
        None \<Rightarrow> ([], Crashed)
      | Some i0 \<Rightarrow>
          (case current_response r of
             None \<Rightarrow> ([], Crashed)
           | Some head \<Rightarrow>
               (let i = AddResponseInfoFromResourceResponse head i0;
                    rq = request r;
                    m = new_method redirect_info
                in ([Api_OnBeforeRedirect i rq (new_url redirect_info),
                     Client_OnReceiveRedirect redirect_info head],
                    Alive (r\<lparr>info := Some i,
                             proxied_client_binding := ResumeIfBound (proxied_client_binding r),
                             current_response := None,
                             request := rq\<lparr>url := new_url redirect_info, method := m,
                                           site_for_cookies := new_site_for_cookies redirect_info,
                                           referrer := new_referrer redirect_info,
                                           referrer_policy := new_referrer_policy redirect_info,
                                           request_body :=
                                             (if m = kGetMethod then None else request_body rq)\<rparr>,
                             request_completed := True,
                             completed_history := completed_history r @ [True]\<rparr>)))))"

definition kInternalRedirectStatusCode :: int where
  "kInternalRedirectStatusCode = 307"

definition LF :: string where
  "LF = [CHR 0x0A]"

text \<open>
  The header text \<^verbatim>\<open>HandleBeforeRequestRedirect\<close> prints; \<^verbatim>\<open>%i\<close> of the constant 307
  is its decimal numeral.
\<close>

definition InternalRedirectHeaders :: "GURL \<Rightarrow> string" where
  "InternalRedirectHeaders u =
     ''HTTP/1.1 '' @ ''307'' @ '' Internal Redirect'' @ LF @
     ''Location: '' @ u @ LF @
     ''Non-Authoritative-Reason: WebRequest API'' @ LF @ LF"

definition CorsHeaders :: "string \<Rightarrow> string" where
  "CorsHeaders http_origin =
     LF @ ''Access-Control-Allow-Origin: '' @ http_origin @ LF @
     ''Access-Control-Allow-Credentials: true''"

definition HandleBeforeRequestRedirect :: "Net \<Rightarrow> Factory \<Rightarrow> InProgressRequest \<Rightarrow> Result" where
  "HandleBeforeRequestRedirect net factory r =
     (let u = redirect_url r;
          rq = request r;
          redirect_info = RedirectInfo_default
            \<lparr>status_code := kInternalRedirectStatusCode, new_method := method rq,
             new_url := u, new_site_for_cookies := u\<rparr>;
          text0 = InternalRedirectHeaders u;
          taint = (ShouldEnableOutOfBlinkCors factory \<and> request_initiator rq \<noteq> None \<and>
                   \<not> IsSameOriginWith net (Origin_Create net u) (Origin_Create net (url rq)) \<and>
                   \<not> IsSameOriginWith net (the (request_initiator rq))
                        (Origin_Create net (url rq)));
          text1 = (if ShouldEnableOutOfBlinkCors factory then text0
                   else case GetHeader ''Origin'' (headers rq) of
                          None \<Rightarrow> text0
                        | Some http_origin \<Rightarrow> text0 @ CorsHeaders http_origin);
          head = URLResponseHead_New
            \<lparr>response_headers := Some (HttpResponseHeaders (AssembleRawHeaders net text1)),
             encoded_data_length := 0\<rparr>
      in ContinueToBeforeRedirect factory redirect_info net_OK
           (r\<lparr>proxied_client_binding := Unbound,
              header_client_receiver := Unbound,
              target_loader_is_bound := False,
              request := (if taint then rq\<lparr>request_initiator := Some OpaqueOrigin\<rparr> else rq),
              current_response := Some head\<rparr>))"

definition ContinueToStartRequest :: "Net \<Rightarrow> Factory \<Rightarrow> int \<Rightarrow> InProgressRequest \<Rightarrow> Result" where
  "ContinueToStartRequest net factory code r =
     (if code \<noteq> net_OK then OnRequestError factory (URLLoaderCompletionStatus code) r
      else if current_request_uses_header_client r \<and> \<not> is_empty (redirect_url r)
      then HandleBeforeRequestRedirect net factory r
      else
        (let r1 = r\<lparr>proxied_client_binding := ResumeIfBound (proxied_client_binding r),
                    header_client_receiver := ResumeIfBound (header_client_receiver r)\<rparr>
         in if \<not> target_loader_is_bound r1 \<and> target_factory_is_bound factory
            then
              (let opts = (if has_any_extra_headers_listeners r1
                           then options r1 OR kURLLoadOptionUseHeaderClient net
                           else options r1)
               in ([TargetFactory_CreateLoaderAndStart (routing_id r1)
                      (network_service_request_id r1) opts (request r1)],
                   Alive (r1\<lparr>proxied_client_binding := Bound,
                             target_loader_is_bound := True\<rparr>)))
            else ([], Alive r1)))"

text \<open>
  The two \<^verbatim>\<open>std::set\<close> arguments of \<^verbatim>\<open>ContinueToSendHeaders\<close> are lists in iteration
  order. A set header that the request does not carry is the \<^verbatim>\<open>NOTREACHED\<close> branch,
  which does nothing in a release build.
\<close>

definition MergeSetHeaders ::
  "HttpRequestHeaders \<Rightarrow> string list \<Rightarrow> HttpRequestHeaders \<Rightarrow> HttpRequestHeaders" where
  "MergeSetHeaders request_headers set_headers modified =
     fold (\<lambda>set_header m. case GetHeader set_header request_headers of
                            Some header_value \<Rightarrow> SetHeader set_header header_value m
                          | None \<Rightarrow> m)
          set_headers modified"

definition ContinueToSendHeaders ::
  "Net \<Rightarrow> Factory \<Rightarrow> string list \<Rightarrow> string list \<Rightarrow> int \<Rightarrow> InProgressRequest \<Rightarrow> Result" where
  "ContinueToSendHeaders net factory removed_headers set_headers code r =
     (if code \<noteq> net_OK then OnRequestError factory (URLLoaderCompletionStatus code) r
      else
        (let (es1, r1) =
               (if current_request_uses_header_client r
                then ([Reply_OnBeforeSendHeaders code (Some (headers (request r)))],
                      r\<lparr>on_before_send_headers_callback := False\<rparr>)
                else case pending_follow_redirect_params r of
                  None \<Rightarrow> ([], r)
                | Some p \<Rightarrow>
                    (let removed = params_removed_headers p @ removed_headers;
                         modified = MergeSetHeaders (headers (request r)) set_headers
                                      (params_modified_headers p)
                     in ((if target_loader_is_bound r
                          then [Loader_FollowRedirect removed modified (params_new_url p)]
                          else []),
                         r\<lparr>pending_follow_redirect_params := None\<rparr>)));
             r2 = r1\<lparr>proxied_client_binding := ResumeIfBound (proxied_client_binding r1)\<rparr>
         in case info r2 of
              None \<Rightarrow> (es1, Crashed)
            | Some i \<Rightarrow>
                (let es2 = [Api_OnSendHeaders i (request r2) (headers (request r2))]
                 in if \<not> current_request_uses_header_client r2
                    then emit (es1 @ es2) (ContinueToStartRequest net factory net_OK r2)
                    else (es1 @ es2, Alive r2))))"

definition ContinueToBeforeSendHeaders ::
  "Net \<Rightarrow> Factory \<Rightarrow> int \<Rightarrow> InProgressRequest \<Rightarrow> Result" where
  "ContinueToBeforeSendHeaders net factory code r =
     (if code \<noteq> net_OK then OnRequestError factory (URLLoaderCompletionStatus code) r
      else if \<not> current_request_uses_header_client r \<and> \<not> is_empty (redirect_url r)
      then HandleBeforeRequestRedirect net factory r
      else case info r of
        None \<Rightarrow> ([], Crashed)
      | Some i \<Rightarrow>
        (let r1 = r\<lparr>proxied_client_binding := ResumeIfBound (proxied_client_binding r)\<rparr>;
             (result, new_headers) =
               api_OnBeforeSendHeaders (web_request_api factory) i (request r1);
             r2 = r1\<lparr>request := (request r1)\<lparr>headers := new_headers\<rparr>\<rparr>
         in emit [Api_OnBeforeSendHeaders i (request r1)]
              (if result = ERR_BLOCKED_BY_CLIENT
               then OnRequestError factory (URLLoaderCompletionStatus result) r2
               else if result = ERR_IO_PENDING
               then ([], Alive (r2\<lparr>proxied_client_binding :=
                                     PauseIfBound (proxied_client_binding r2)\<rparr>))
               else ContinueToSendHeaders net factory [] [] net_OK r2)))"

definition RestartInternal :: "Net \<Rightarrow> Factory \<Rightarrow> InProgressRequest \<Rightarrow> Result" where
  "RestartInternal net factory r =
     (let r1 = r\<lparr>request_completed := False,
                 completed_history := completed_history r @ [False],
                 redirect_url := []\<rparr>
      in case info r1 of
           None \<Rightarrow> ([], Crashed)
         | Some i \<Rightarrow>
           (let (result, written_url) =
                  api_OnBeforeRequest (web_request_api factory) i (request r1);
                r2 = r1\<lparr>redirect_url := written_url\<rparr>
            in emit [Api_OnBeforeRequest i (request r1)]
                 (if result = ERR_BLOCKED_BY_CLIENT
                  then OnRequestError factory (URLLoaderCompletionStatus result) r2
                  else if result = ERR_IO_PENDING
                  then ([], Alive (r2\<lparr>proxied_client_binding :=
                                        PauseIfBound (proxied_client_binding r2),
                                      header_client_receiver :=
                                        PauseIfBound (header_client_receiver r2)\<rparr>))
                  else if current_request_uses_header_client r2
                  then ContinueToStartRequest net factory net_OK r2
                  else ContinueToBeforeSendHeaders net factory net_OK r2)))"

definition UpdateRequestInfo :: "Net \<Rightarrow> Factory \<Rightarrow> InProgressRequest \<Rightarrow> InProgressRequest" where
  "UpdateRequestInfo net factory r =
     (let request_for_info = (request r)\<lparr>request_initiator := original_initiator r\<rparr>
      in r\<lparr>info := Some
              \<lparr>info_id = request_id r,
               info_render_process_id = render_process_id factory,
               info_frame_id = render_frame_id (request r),
               info_routing_id = routing_id r,
               info_request = request_for_info,
               is_download = False,
               is_async = (options r AND kURLLoadOptionSynchronous net = 0),
               is_service_worker_script = IsForServiceWorkerScript factory,
               response = None\<rparr>,
           current_request_uses_header_client :=
             (url_loader_header_client_receiver_is_bound factory \<and>
              network_service_request_id r \<noteq> 0 \<and>
              False)\<rparr>)"

definition Restart :: "Net \<Rightarrow> Factory \<Rightarrow> InProgressRequest \<Rightarrow> Result" where
  "Restart net factory r = RestartInternal net factory (UpdateRequestInfo net factory r)"

definition FollowRedirect ::
  "Net \<Rightarrow> Factory \<Rightarrow> string list \<Rightarrow> HttpRequestHeaders \<Rightarrow> GURL option
     \<Rightarrow> InProgressRequest \<Rightarrow> Result" where
  "FollowRedirect net factory removed_headers modified_headers new_url_opt r =
     (let rq = request r;
          rq1 = rq\<lparr>url := (case new_url_opt of Some u \<Rightarrow> u | None \<Rightarrow> url rq)\<rparr>;
          rq2 = rq1\<lparr>headers := MergeFrom modified_headers
                                   (fold RemoveHeader removed_headers (headers rq1))\<rparr>;
          r1 = UpdateRequestInfo net factory (r\<lparr>request := rq2\<rparr>)
      in if target_loader_is_bound r1
         then if current_request_uses_header_client r1
              then emit [Loader_FollowRedirect removed_headers modified_headers new_url_opt]
                     (RestartInternal net factory r1)
              else RestartInternal net factory
                     (r1\<lparr>pending_follow_redirect_params := Some
                          \<lparr>params_removed_headers = removed_headers,
                           params_modified_headers = modified_headers,
                           params_new_url = new_url_opt\<rparr>\<rparr>)
         else RestartInternal net factory r1)"

definition ContinueToResponseStarted ::
  "Net \<Rightarrow> Factory \<Rightarrow> int \<Rightarrow> InProgressRequest \<Rightarrow> Result" where
  "ContinueToResponseStarted net factory code r =
     (if code \<noteq> net_OK then OnRequestError factory (URLLoaderCompletionStatus code) r
      else case current_response r of
        None \<Rightarrow> ([], Crashed)
      | Some head0 \<Rightarrow>
          (let head = (case override_headers r of
                         None \<Rightarrow> head0
                       | Some ov \<Rightarrow> head0\<lparr>response_headers := Some ov\<rparr>);
               r1 = r\<lparr>current_response := Some head\<rparr>;
               redirect_location = (case override_headers r of
                                      None \<Rightarrow> None
                                    | Some ov \<Rightarrow> IsRedirect net ov)
           in case redirect_location of
                Some location \<Rightarrow>
                  ContinueToBeforeRedirect factory
                    (RedirectInfo_default
                       \<lparr>status_code := response_code net (the (override_headers r)),
                        new_method := method (request r),
                        new_url := location,
                        new_site_for_cookies := location\<rparr>)
                    net_OK
                    (r1\<lparr>proxied_client_binding := Unbound,
                        header_client_receiver := Unbound,
                        target_loader_is_bound := False\<rparr>)
              | None \<Rightarrow>
                  (case info r1 of
                     None \<Rightarrow> ([], Crashed)
                   | Some i0 \<Rightarrow>
                       (let i = AddResponseInfoFromResourceResponse head i0
                        in ([Api_OnResponseStarted i (request r1),
                             Client_OnReceiveResponse head],
                            Alive (r1\<lparr>info := Some i,
                                      proxied_client_binding :=
                                        Resume (proxied_client_binding r1),
                                      current_response := None\<rparr>))))))"

definition ContinueToHandleOverrideHeaders ::
  "Net \<Rightarrow> Factory \<Rightarrow> int \<Rightarrow> InProgressRequest \<Rightarrow> Result" where
  "ContinueToHandleOverrideHeaders net factory code r =
     (if code \<noteq> net_OK then OnRequestError factory (URLLoaderCompletionStatus code) r
      else if override_headers r \<noteq> None \<and> current_request_uses_header_client r \<and>
              current_response r = None
      then ([], Crashed)
      else
        (let r1 = (if override_headers r \<noteq> None \<and> current_request_uses_header_client r
                   then r\<lparr>current_response :=
                            map_option (\<lambda>h. h\<lparr>response_headers := override_headers r\<rparr>)
                              (current_response r)\<rparr>
                   else r)
         in ([Reply_OnHeadersReceived net_OK (map_option (raw_headers net) (override_headers r))
                (redirect_url r)],
             Alive (r1\<lparr>on_headers_received_callback := False,
                       override_headers := None,
                       proxied_client_binding :=
                         ResumeIfBound (proxied_client_binding r1)\<rparr>))))"

text \<open>The continuation \<^verbatim>\<open>HandleResponseOrRedirectHeaders\<close> is given.\<close>

datatype Continuation =
    ToResponseStarted
  | ToBeforeRedirect RedirectInfo
  | ToHandleOverrideHeaders

fun Run :: "Net \<Rightarrow> Factory \<Rightarrow> Continuation \<Rightarrow> int \<Rightarrow> InProgressRequest \<Rightarrow> Result" where
  "Run net factory ToResponseStarted code r = ContinueToResponseStarted net factory code r"
| "Run net factory (ToBeforeRedirect redirect_info) code r =
     ContinueToBeforeRedirect factory redirect_info code r"
| "Run net factory ToHandleOverrideHeaders code r =
     ContinueToHandleOverrideHeaders net factory code r"

definition HandleResponseOrRedirectHeaders ::
  "Net \<Rightarrow> Factory \<Rightarrow> Continuation \<Rightarrow> InProgressRequest \<Rightarrow> Result" where
  "HandleResponseOrRedirectHeaders net factory continuation r =
     (case info r of
        None \<Rightarrow> ([], Crashed)
      | Some i0 \<Rightarrow>
     (case current_response r of
        None \<Rightarrow> ([], Crashed)
      | Some head \<Rightarrow>
          (let i = AddResponseInfoFromResourceResponse head i0;
               r1 = r\<lparr>override_headers := None, redirect_url := [], info := Some i\<rparr>;
               (result, written_override, written_url) =
                 api_OnHeadersReceived (web_request_api factory) i (request r1)
                   (response_headers head);
               r2 = r1\<lparr>override_headers := written_override, redirect_url := written_url\<rparr>
           in emit [Api_OnHeadersReceived i (request r1) (response_headers head)]
                (if result = ERR_BLOCKED_BY_CLIENT
                 then OnRequestError factory (URLLoaderCompletionStatus result) r2
                 else if result = ERR_IO_PENDING
                 then ([], Alive (r2\<lparr>proxied_client_binding :=
                                       Pause (proxied_client_binding r2)\<rparr>))
                 else Run net factory continuation net_OK r2))))"

definition OnReceiveResponse ::
  "Net \<Rightarrow> Factory \<Rightarrow> URLResponseHead \<Rightarrow> InProgressRequest \<Rightarrow> Result" where
  "OnReceiveResponse net factory head r =
     (if current_request_uses_header_client r
      then case current_response r of
             None \<Rightarrow> ([], Crashed)
           | Some saved \<Rightarrow>
               ContinueToResponseStarted net factory net_OK
                 (r\<lparr>current_response :=
                      Some (head\<lparr>response_headers := response_headers saved\<rparr>)\<rparr>)
      else HandleResponseOrRedirectHeaders net factory ToResponseStarted
             (r\<lparr>current_response := Some head\<rparr>))"

definition OnReceiveRedirect ::
  "Net \<Rightarrow> Factory \<Rightarrow> RedirectInfo \<Rightarrow> URLResponseHead \<Rightarrow> InProgressRequest \<Rightarrow> Result" where
  "OnReceiveRedirect net factory redirect_info head r =
     (if current_request_uses_header_client r
      then case current_response r of
             None \<Rightarrow> ([], Crashed)
           | Some saved \<Rightarrow>
               ContinueToBeforeRedirect factory redirect_info net_OK
                 (r\<lparr>current_response := Some
                      (case response_headers saved of
                         None \<Rightarrow> head
                       | Some saved_headers \<Rightarrow>
                           head\<lparr>response_headers := Some saved_headers\<rparr>)\<rparr>)
      else HandleResponseOrRedirectHeaders net factory (ToBeforeRedirect redirect_info)
             (r\<lparr>current_response := Some head\<rparr>))"

text \<open>
  In \<^verbatim>\<open>OnComplete\<close> too the completion is sent to the issuer before
  \<^verbatim>\<open>&info_.value()\<close> is evaluated.
\<close>

definition OnComplete ::
  "Factory \<Rightarrow> URLLoaderCompletionStatus \<Rightarrow> InProgressRequest \<Rightarrow> Result" where
  "OnComplete factory status r =
     (if error_code status \<noteq> net_OK then OnRequestError factory status r
      else case info r of
             None \<Rightarrow> ([Client_OnComplete status], Crashed)
           | Some i \<Rightarrow>
               ([Client_OnComplete status,
                 Api_OnCompleted i (request r) (error_code status)],
                RemoveRequested (network_service_request_id r) (request_id r)))"

definition OnLoaderCreated :: "InProgressRequest \<Rightarrow> InProgressRequest" where
  "OnLoaderCreated r = r\<lparr>header_client_receiver := Bound\<rparr>"

definition OnBeforeSendHeaders ::
  "Net \<Rightarrow> Factory \<Rightarrow> HttpRequestHeaders \<Rightarrow> InProgressRequest \<Rightarrow> Result" where
  "OnBeforeSendHeaders net factory hs r =
     (if \<not> current_request_uses_header_client r
      then ([Reply_OnBeforeSendHeaders net_OK None], Alive r)
      else ContinueToBeforeSendHeaders net factory net_OK
             (r\<lparr>request := (request r)\<lparr>headers := hs\<rparr>,
                on_before_send_headers_callback := True\<rparr>))"

definition OnHeadersReceived ::
  "Net \<Rightarrow> Factory \<Rightarrow> string \<Rightarrow> InProgressRequest \<Rightarrow> Result" where
  "OnHeadersReceived net factory hs r =
     (if \<not> current_request_uses_header_client r
      then ([Reply_OnHeadersReceived net_OK None []], Alive r)
      else HandleResponseOrRedirectHeaders net factory ToHandleOverrideHeaders
             (r\<lparr>on_headers_received_callback := True,
                current_response := Some
                  (URLResponseHead_New\<lparr>response_headers := Some (HttpResponseHeaders hs)\<rparr>)\<rparr>))"

subsection \<open>Calls on a Request Record\<close>

text \<open>
  The calls that reach a record from outside: from the factory, the issuer, the
  transport, the header client, the connection-error handler of the issuer pipe, and from
  the listener API when it resumes a pending hook. A resumption first writes the hook's
  out-parameters and then runs the continuation that was bound when the hook was called.
  The pass-through calls (priority, body flow control, upload progress, cached metadata,
  transfer size, body stream) change no field and are left out.
\<close>

datatype Message =
    Call_Restart
  | Call_FollowRedirect "string list" HttpRequestHeaders "GURL option"
  | Call_OnReceiveResponse URLResponseHead
  | Call_OnReceiveRedirect RedirectInfo URLResponseHead
  | Call_OnComplete URLLoaderCompletionStatus
  | Call_OnLoaderCreated
  | Call_OnBeforeSendHeaders HttpRequestHeaders
  | Call_OnHeadersReceived string
  | Call_OnRequestError URLLoaderCompletionStatus
  | Resume_OnBeforeRequest GURL int
  | Resume_OnBeforeSendHeaders HttpRequestHeaders "string list" "string list" int
  | Resume_OnHeadersReceived Continuation "HttpResponseHeaders option" GURL int

fun handle :: "Net \<Rightarrow> Factory \<Rightarrow> Message \<Rightarrow> InProgressRequest \<Rightarrow> Result" where
  "handle net factory Call_Restart r = Restart net factory r"
| "handle net factory (Call_FollowRedirect removed modified new_url_opt) r =
     FollowRedirect net factory removed modified new_url_opt r"
| "handle net factory (Call_OnReceiveResponse head) r = OnReceiveResponse net factory head r"
| "handle net factory (Call_OnReceiveRedirect redirect_info head) r =
     OnReceiveRedirect net factory redirect_info head r"
| "handle net factory (Call_OnComplete status) r = OnComplete factory status r"
| "handle net factory Call_OnLoaderCreated r = ([], Alive (OnLoaderCreated r))"
| "handle net factory (Call_OnBeforeSendHeaders hs) r = OnBeforeSendHeaders net factory hs r"
| "handle net factory (Call_OnHeadersReceived hs) r = OnHeadersReceived net factory hs r"
| "handle net factory (Call_OnRequestError status) r = OnRequestError factory status r"
| "handle net factory (Resume_OnBeforeRequest written_url code) r =
     (if current_request_uses_header_client r
      then ContinueToStartRequest net factory code (r\<lparr>redirect_url := written_url\<rparr>)
      else ContinueToBeforeSendHeaders net factory code (r\<lparr>redirect_url := written_url\<rparr>))"
| "handle net factory (Resume_OnBeforeSendHeaders written_headers removed set_headers code) r =
     ContinueToSendHeaders net factory removed set_headers code
       (r\<lparr>request := (request r)\<lparr>headers := written_headers\<rparr>\<rparr>)"
| "handle net factory (Resume_OnHeadersReceived continuation written_override written_url code) r =
     Run net factory continuation code
       (r\<lparr>override_headers := written_override, redirect_url := written_url\<rparr>)"

text \<open>
  The two calls that start a leg: they run \<^verbatim>\<open>RestartInternal\<close>, which assigns the
  completed flag.
\<close>

fun starts_leg :: "Message \<Rightarrow> bool" where
  "starts_leg Call_Restart = True"
| "starts_leg (Call_FollowRedirect removed modified new_url_opt) = True"
| "starts_leg m = False"

text \<open>
  Whether the guard of \<^verbatim>\<open>OnRequestError\<close> withholds the error completion when a call
  ends in it. A call that starts a leg has reset the flag before; a completion with the
  status OK does not pass the guard; every other call meets the flag as it found it.
\<close>

fun error_suppressed :: "InProgressRequest \<Rightarrow> Message \<Rightarrow> bool" where
  "error_suppressed r Call_Restart = False"
| "error_suppressed r (Call_FollowRedirect removed modified new_url_opt) = False"
| "error_suppressed r (Call_OnComplete status) =
     (request_completed r \<and> error_code status \<noteq> net_OK)"
| "error_suppressed r m = request_completed r"

text \<open>
  The life of one record under a sequence of calls, each with the factory as it is at
  that moment: the log, and the values of \<open>request_completed\<close> between the calls.
\<close>

fun log_of :: "Net \<Rightarrow> InProgressRequest \<Rightarrow> (Factory \<times> Message) list \<Rightarrow> Effect list" where
  "log_of net r [] = []"
| "log_of net r ((factory, m) # ms) =
     fst (handle net factory m r) @
     (case snd (handle net factory m r) of Alive r' \<Rightarrow> log_of net r' ms | _ \<Rightarrow> [])"

fun completed_values :: "Net \<Rightarrow> InProgressRequest \<Rightarrow> (Factory \<times> Message) list \<Rightarrow> bool list" where
  "completed_values net r [] = [request_completed r]"
| "completed_values net r ((factory, m) # ms) =
     request_completed r #
     (case snd (handle net factory m r) of Alive r' \<Rightarrow> completed_values net r' ms | _ \<Rightarrow> [])"

fun rising_edges :: "bool list \<Rightarrow> nat" where
  "rising_edges (a # b # bs) = (if \<not> a \<and> b then 1 else 0) + rising_edges (b # bs)"
| "rising_edges bs = 0"

text \<open>
  Further readings of a life: the record it ends with, the redirect parameters that record
  holds buffered, the history and the value of its completed flag, the requests handed to
  the transport factory, and the header objects of the responses forwarded to the issuer.
\<close>

fun record_after :: "Net \<Rightarrow> InProgressRequest \<Rightarrow> (Factory \<times> Message) list \<Rightarrow> Outcome" where
  "record_after net r [] = Alive r"
| "record_after net r ((factory, m) # ms) =
     (case snd (handle net factory m r) of
        Alive r' \<Rightarrow> record_after net r' ms
      | gone \<Rightarrow> gone)"

fun buffered_params :: "Outcome \<Rightarrow> FollowRedirectParams option" where
  "buffered_params (Alive r) = pending_follow_redirect_params r"
| "buffered_params gone = None"

fun history_after :: "Outcome \<Rightarrow> bool list" where
  "history_after (Alive r) = completed_history r"
| "history_after gone = []"

fun completed_after :: "Outcome \<Rightarrow> bool" where
  "completed_after (Alive r) = request_completed r"
| "completed_after gone = False"

fun forwarded_requests :: "Effect list \<Rightarrow> ResourceRequest list" where
  "forwarded_requests [] = []"
| "forwarded_requests (TargetFactory_CreateLoaderAndStart a b c rq # es) =
     rq # forwarded_requests es"
| "forwarded_requests (e # es) = forwarded_requests es"

fun forwarded_response_headers :: "Effect list \<Rightarrow> HttpResponseHeaders option list" where
  "forwarded_response_headers [] = []"
| "forwarded_response_headers (Client_OnReceiveResponse head # es) =
     response_headers head # forwarded_response_headers es"
| "forwarded_response_headers (e # es) = forwarded_response_headers es"

text \<open>
  A result that settles the record with the identifiers \<open>nsr_id\<close> and \<open>req_id\<close>: if
  the record lives on, the issuer has received no terminal event and the record keeps its
  identifiers and its info; if the record asks for its removal, it names its own
  identifiers and the issuer has received one terminal event, or none when \<open>withheld\<close>;
  if the run ends, the issuer has received none.
\<close>

definition settles :: "bool \<Rightarrow> int \<Rightarrow> int \<Rightarrow> Result \<Rightarrow> bool" where
  "settles withheld nsr_id req_id res =
     (case snd res of
        Alive r' \<Rightarrow>
          filter is_terminal_event (fst res) = [] \<and>
          network_service_request_id r' = nsr_id \<and> request_id r' = req_id \<and> info r' \<noteq> None
      | RemoveRequested n k \<Rightarrow>
          n = nsr_id \<and> k = req_id \<and>
          length (filter is_terminal_event (fst res)) = (if withheld then 0 else 1)
      | Crashed \<Rightarrow> filter is_terminal_event (fst res) = [])"

text \<open>
  A registered record that answers to the identifier it is registered under and has its
  info: what \<^verbatim>\<open>CreateLoaderAndStart\<close> establishes.
\<close>

definition well_registered :: "int \<Rightarrow> World \<Rightarrow> bool" where
  "well_registered req_id w =
     (case w of
        Running factory \<Rightarrow>
          (case map_of (requests factory) req_id of
             None \<Rightarrow> True
           | Some r \<Rightarrow> request_id r = req_id \<and> info r \<noteq> None)
      | _ \<Rightarrow> True)"

text \<open>
  A result that continues the history of the completed flag from the history \<open>h\<close> and
  the value \<open>c\<close>: if the record lives on, its history is \<open>h\<close> followed by one
  \<open>True\<close> for every redirect delivered to the issuer, and the flag is set exactly if it
  was set or a redirect was delivered.
\<close>

definition continues_history :: "bool list \<Rightarrow> bool \<Rightarrow> Result \<Rightarrow> bool" where
  "continues_history h c res =
     (case snd res of
        Alive r' \<Rightarrow>
          completed_history r' =
            h @ replicate (length (filter is_redirect_event (fst res))) True \<and>
          request_completed r' = (c \<or> filter is_redirect_event (fst res) \<noteq> [])
      | _ \<Rightarrow> True)"


text \<open>A result that hands no request with a body to the transport and leaves none behind.\<close>

definition bodyless :: "Result \<Rightarrow> bool" where
  "bodyless res =
     (list_all (\<lambda>rq. request_body rq = None) (forwarded_requests (fst res)) \<and>
      (case snd res of Alive r' \<Rightarrow> request_body (request r') = None | _ \<Rightarrow> True))"

subsection \<open>Methods of the Proxy Factory\<close>

text \<open>
  The constructor of the record. Modelled from the spec: the initial values of the two
  flags \<open>request_completed\<close> and \<open>current_request_uses_header_client\<close> are member
  initialisers of the class declaration, which is not among the sources; the spec has
  the completed flag false until a terminal event or redirect is delivered. Both flags
  are written by \<open>Restart\<close> before they are read.
\<close>

definition InProgressRequest_new ::
  "int \<Rightarrow> int \<Rightarrow> int \<Rightarrow> 32 word \<Rightarrow> ResourceRequest \<Rightarrow> InProgressRequest" where
  "InProgressRequest_new web_request_id routing network_request_id opts rq =
     \<lparr>request = rq,
      original_initiator = request_initiator rq,
      request_id = web_request_id,
      routing_id = routing,
      network_service_request_id = network_request_id,
      options = opts,
      info = None,
      current_response = Some URLResponseHead_New,
      override_headers = None,
      redirect_url = [],
      request_completed = False,
      completed_history = [False],
      current_request_uses_header_client = False,
      has_any_extra_headers_listeners = False,
      proxied_client_binding = Unbound,
      header_client_receiver = Unbound,
      target_loader_is_bound = False,
      pending_follow_redirect_params = None,
      on_before_send_headers_callback = False,
      on_headers_received_callback = False\<rparr>"

text \<open>
  A call on the record registered under \<open>req_id\<close>. A record that has been removed is
  deleted, and its bindings and weak pointers with it: a call for it is dropped.
\<close>

definition dispatch ::
  "(Factory \<Rightarrow> InProgressRequest \<Rightarrow> Result) \<Rightarrow> int \<Rightarrow> World \<Rightarrow> Effect list \<times> World" where
  "dispatch step req_id w =
     (case w of
        Running factory \<Rightarrow>
          (case map_of (requests factory) req_id of
             None \<Rightarrow> ([], w)
           | Some r \<Rightarrow>
               (case step factory r of
                  (es, Alive r') \<Rightarrow>
                    (es, Running (factory\<lparr>requests :=
                                            AList.update req_id r' (requests factory)\<rparr>))
                | (es, RemoveRequested nsr_id rid) \<Rightarrow> (es, RemoveRequest nsr_id rid factory)
                | (es, Crashed) \<Rightarrow> (es, ProcessCrashed)))
      | _ \<Rightarrow> ([], w))"

definition deliver :: "Net \<Rightarrow> int \<Rightarrow> Message \<Rightarrow> World \<Rightarrow> Effect list \<times> World" where
  "deliver net req_id m w = dispatch (\<lambda>factory. handle net factory m) req_id w"

fun deliver_all :: "Net \<Rightarrow> int \<Rightarrow> Message list \<Rightarrow> World \<Rightarrow> Effect list \<times> World" where
  "deliver_all net req_id [] w = ([], w)"
| "deliver_all net req_id (m # ms) w =
     (let (es, w1) = deliver net req_id m w;
          (es', w2) = deliver_all net req_id ms w1
      in (es @ es', w2))"

definition registered :: "int \<Rightarrow> World \<Rightarrow> bool" where
  "registered req_id w =
     (case w of Running factory \<Rightarrow> map_of (requests factory) req_id \<noteq> None | _ \<Rightarrow> False)"

definition CreateLoaderAndStart ::
  "Net \<Rightarrow> int \<Rightarrow> int \<Rightarrow> 32 word \<Rightarrow> ResourceRequest \<Rightarrow> Factory \<Rightarrow> Effect list \<times> World" where
  "CreateLoaderAndStart net routing req_id opts rq factory =
     (case map_of (intercepted_handlers factory) (scheme (url rq)) of
        Some protocol_type \<Rightarrow> ([InterceptedHandler_Run protocol_type rq], Running factory)
      | None \<Rightarrow>
          if SchemeIsFile (url rq) then ([CreateAsarURLLoader rq], Running factory)
          else if \<not> HasListener (web_request_api factory)
          then ([TargetFactory_CreateLoaderAndStart routing req_id opts rq], Running factory)
          else
            (let web_request_id = g_request_id factory + 1;
                 factory1 = factory\<lparr>g_request_id := web_request_id\<rparr>;
                 factory2 =
                   (if req_id \<noteq> 0
                    then factory1\<lparr>network_request_id_to_web_request_id :=
                                    emplace req_id web_request_id
                                      (network_request_id_to_web_request_id factory1)\<rparr>
                    else factory1);
                 factory3 = factory2\<lparr>requests :=
                   emplace web_request_id
                     (InProgressRequest_new web_request_id routing req_id opts rq)
                     (requests factory2)\<rparr>
             in dispatch (Restart net) web_request_id (Running factory3)))"

definition Factory_OnLoaderCreated :: "int \<Rightarrow> Factory \<Rightarrow> Factory" where
  "Factory_OnLoaderCreated req_id factory =
     (case map_of (network_request_id_to_web_request_id factory) req_id of
        None \<Rightarrow> factory
      | Some web_request_id \<Rightarrow>
          (case map_of (requests factory) web_request_id of
             None \<Rightarrow> factory
           | Some r \<Rightarrow>
               factory\<lparr>requests :=
                 AList.update web_request_id (OnLoaderCreated r) (requests factory)\<rparr>))"

subsection \<open>A concrete setting\<close>

text \<open>
  One instance of the library functions, of the listener API and of a factory, on which
  the theorems below are exercised: a listener that lets every request proceed unchanged,
  on a factory whose transport and header-client pipes are both bound.
\<close>

definition example_net :: Net where
  "example_net =
     \<lparr>AssembleRawHeaders = (\<lambda>s. s),
      raw_headers = (\<lambda>h. case h of HttpResponseHeaders s \<Rightarrow> s),
      response_code = (\<lambda>h. 200),
      IsRedirect = (\<lambda>h. None),
      Origin_Create = TupleOrigin,
      IsSameOriginWith = (\<lambda>a b. a = b),
      kURLLoadOptionSynchronous = 4,
      kURLLoadOptionUseHeaderClient = 16\<rparr>"

definition example_api :: WebRequestAPI where
  "example_api =
     \<lparr>HasListener = True,
      HasExtraHeadersListenerForRequest = (\<lambda>i. True),
      api_OnBeforeRequest = (\<lambda>i rq. (net_OK, [])),
      api_OnBeforeSendHeaders = (\<lambda>i rq. (net_OK, headers rq)),
      api_OnHeadersReceived = (\<lambda>i rq hs. (net_OK, None, []))\<rparr>"

definition example_factory :: Factory where
  "example_factory =
     \<lparr>web_request_api = example_api,
      intercepted_handlers = [],
      ShouldEnableOutOfBlinkCors = True,
      render_process_id = 3,
      loader_factory_type_is_service_worker_script = False,
      target_factory_is_bound = True,
      proxy_receivers = 1,
      url_loader_header_client_receiver_is_bound = True,
      requests = [],
      network_request_id_to_web_request_id = [],
      g_request_id = 0\<rparr>"

definition example_request :: ResourceRequest where
  "example_request =
     \<lparr>url = ''http://a/x'', method = ''POST'', headers = [(''Accept'', ''*/*'')],
      request_body = Some ''payload'', site_for_cookies = ''http://a/'',
      referrer = [], referrer_policy = 0, request_initiator = None, render_frame_id = 1\<rparr>"

definition example_record :: InProgressRequest where
  "example_record = InProgressRequest_new 1 5 7 0 example_request"

definition example_redirect :: RedirectInfo where
  "example_redirect = RedirectInfo_default
     \<lparr>status_code := 302, new_method := ''GET'', new_url := ''http://b/y'',
      new_site_for_cookies := ''http://b/''\<rparr>"

definition example_head :: URLResponseHead where
  "example_head =
     \<lparr>response_headers = Some (HttpResponseHeaders ''HTTP/1.1 302 Found''),
      encoded_data_length = 0\<rparr>"

text \<open>A record that is redirected by the transport on two consecutive legs.\<close>

definition example_two_redirects :: "(Factory \<times> Message) list" where
  "example_two_redirects =
     [(example_factory, Call_Restart),
      (example_factory, Call_OnReceiveRedirect example_redirect example_head),
      (example_factory, Call_FollowRedirect [] [] None),
      (example_factory, Call_OnReceiveRedirect example_redirect example_head)]"

text \<open>The example record once its first leg has started, and the factory that holds it.\<close>

definition example_started :: InProgressRequest where
  "example_started =
     (case snd (Restart example_net example_factory example_record) of
        Alive r \<Rightarrow> r
      | _ \<Rightarrow> example_record)"

definition example_running :: Factory where
  "example_running =
     example_factory\<lparr>requests := [(1, example_started)],
                     network_request_id_to_web_request_id := [(7, 1)],
                     g_request_id := 1\<rparr>"


text \<open>
  After the request has been created, the transport redirects it and then the issuer pipe
  disconnects before the issuer follows the redirect.
\<close>

definition example_redirect_then_abort :: "Message list" where
  "example_redirect_then_abort =
     [Call_OnReceiveRedirect example_redirect example_head,
      Call_OnRequestError (URLLoaderCompletionStatus ERR_ABORTED)]"

text \<open>A listener that redirects every request at before-request, and one that cancels.\<close>

definition example_redirecting_factory :: Factory where
  "example_redirecting_factory =
     example_factory\<lparr>web_request_api :=
       example_api\<lparr>api_OnBeforeRequest := (\<lambda>i rq. (net_OK, ''http://b/y''))\<rparr>\<rparr>"

definition example_cancelling_factory :: Factory where
  "example_cancelling_factory =
     example_factory\<lparr>web_request_api :=
       example_api\<lparr>api_OnBeforeRequest := (\<lambda>i rq. (ERR_BLOCKED_BY_CLIENT, []))\<rparr>\<rparr>"

text \<open>A factory without any listener.\<close>

definition example_idle_factory :: Factory where
  "example_idle_factory =
     example_factory\<lparr>web_request_api := example_api\<lparr>HasListener := False\<rparr>\<rparr>"

text \<open>
  The started record after the transport has redirected it to \<open>GET\<close>, and two further
  legs: on the first the listener redirects at before-request, on the second the request
  goes to the transport.
\<close>

definition example_redirected :: InProgressRequest where
  "example_redirected =
     (case snd (ContinueToBeforeRedirect example_factory example_redirect net_OK
                  (example_started\<lparr>current_response := Some example_head\<rparr>)) of
        Alive r \<Rightarrow> r
      | _ \<Rightarrow> example_record)"

definition example_next_legs :: "(Factory \<times> Message) list" where
  "example_next_legs =
     [(example_redirecting_factory, Call_FollowRedirect [] [] None),
      (example_factory, Call_FollowRedirect [] [] None)]"




text \<open>
  A listener whose before-send-headers hook answers pending, and a life in which the
  issuer follows an internal redirect: the listener redirects the first leg, the issuer
  follows with header changes, and the pending hook resumes with one header set.
\<close>

definition example_pending_factory :: Factory where
  "example_pending_factory =
     example_factory\<lparr>web_request_api :=
       example_api\<lparr>api_OnBeforeSendHeaders := (\<lambda>i rq. (ERR_IO_PENDING, headers rq))\<rparr>\<rparr>"

definition example_follow_after_internal_redirect :: "(Factory \<times> Message) list" where
  "example_follow_after_internal_redirect =
     [(example_redirecting_factory, Call_Restart),
      (example_pending_factory, Call_FollowRedirect [''Accept''] [(''X-Added'', ''1'')] None),
      (example_pending_factory,
       Resume_OnBeforeSendHeaders [(''X-Added'', ''1''), (''X-Listener'', ''2'')] []
         [''X-Listener''] net_OK)]"

section \<open>Properties\<close>

lemma emit_simps [simp]:
  "fst (emit es res) = es @ fst res"
  "snd (emit es res) = snd res"
  by (simp_all add: emit_def)

lemma forwarded_response_headers_append [simp]:
  "forwarded_response_headers (es @ es') =
     forwarded_response_headers es @ forwarded_response_headers es'"
  by (induction es rule: forwarded_response_headers.induct) simp_all


subsection \<open>Selection of the header mode\<close>

text \<open>
  Claim C1, as the code has it. The claim says that a leg uses the trusted-header channel
  exactly when the factory-level binding exists, the transport identifier is nonzero and
  a listener requires full header visibility. In \<^verbatim>\<open>UpdateRequestInfo\<close> the third
  conjunct is the constant \<^verbatim>\<open>false\<close>: the recomputed mode is sniffed-header mode for
  every record, every factory and every listener.
\<close>

theorem UpdateRequestInfo_selects_sniffed_mode:
  "\<not> current_request_uses_header_client (UpdateRequestInfo net factory r)"
  by (simp add: UpdateRequestInfo_def)

theorem UpdateRequestInfo_selects_sniffed_mode_witness:
  "\<not> current_request_uses_header_client
        (UpdateRequestInfo example_net example_factory
           (example_record\<lparr>current_request_uses_header_client := True\<rparr>))"
  using UpdateRequestInfo_selects_sniffed_mode
          [of example_net example_factory
              "example_record\<lparr>current_request_uses_header_client := True\<rparr>"]
  by simp

text \<open>
  The claim C1 as stated fails: here the binding exists, the identifier is 7 and the
  listener API reports a listener that requires the full headers, and the recomputed mode
  is still sniffed-header mode.
\<close>

theorem UpdateRequestInfo_mode_counterexample:
  "url_loader_header_client_receiver_is_bound example_factory \<and>
   network_service_request_id example_record \<noteq> 0 \<and>
   HasExtraHeadersListenerForRequest (web_request_api example_factory)
     (info (UpdateRequestInfo example_net example_factory example_record)) \<and>
   \<not> current_request_uses_header_client
        (UpdateRequestInfo example_net example_factory example_record)"
  by (simp add: UpdateRequestInfo_def example_factory_def example_record_def
        InProgressRequest_new_def example_api_def)

subsection \<open>Every leg runs in sniffed-header mode\<close>


















subsection \<open>Response headers\<close>






subsection \<open>Decisions of the before-request hook\<close>

text \<open>
  In sniffed-header mode \<^verbatim>\<open>FollowRedirect\<close> makes no call of its own, and both entry
  points hand \<^verbatim>\<open>RestartInternal\<close> a record with its info.
\<close>

lemma FollowRedirect_enters_RestartInternal:
  "\<exists>r1. FollowRedirect net factory removed modified new_url_opt r =
          RestartInternal net factory r1 \<and> info r1 \<noteq> None"
  by (auto simp add: FollowRedirect_def Let_def UpdateRequestInfo_def)

lemma UpdateRequestInfo_sets_info: "info (UpdateRequestInfo net factory r) \<noteq> None"
  by (simp add: UpdateRequestInfo_def)

lemma HandleBeforeRequestRedirect_result:
  assumes "info r = Some i"
  shows "\<exists>i' rq' r'.
     HandleBeforeRequestRedirect net factory r =
       ([Api_OnBeforeRedirect i' rq' (redirect_url r),
         Client_OnReceiveRedirect
           (RedirectInfo_default
              \<lparr>status_code := 307, new_method := method (request r),
               new_url := redirect_url r, new_site_for_cookies := redirect_url r\<rparr>)
           \<lparr>response_headers = Some (HttpResponseHeaders (AssembleRawHeaders net
              (''HTTP/1.1 307 Internal Redirect'' @ LF @
               ''Location: '' @ redirect_url r @ LF @
               ''Non-Authoritative-Reason: WebRequest API'' @ LF @ LF @
               (if ShouldEnableOutOfBlinkCors factory then []
                else case GetHeader ''Origin'' (headers (request r)) of
                       None \<Rightarrow> []
                     | Some http_origin \<Rightarrow> CorsHeaders http_origin)))),
            encoded_data_length = 0\<rparr>],
        Alive r') \<and>
     proxied_client_binding r' = Unbound \<and> header_client_receiver r' = Unbound \<and>
     \<not> target_loader_is_bound r'"
  using assms
  by (simp add: HandleBeforeRequestRedirect_def ContinueToBeforeRedirect_def Let_def
        InternalRedirectHeaders_def kInternalRedirectStatusCode_def URLResponseHead_New_def
        ResumeIfBound_def Unbound_def
      split: option.splits)

text \<open>
  Claim C4. Every leg enters the before-request phase through \<^verbatim>\<open>RestartInternal\<close>:
  \<^verbatim>\<open>Restart\<close> and \<^verbatim>\<open>FollowRedirect\<close> both end in it, on a record with its info, and
  make no call before it. When the before-request hook answers with a redirect URL \<open>U\<close>
  (it does not cancel, and \<open>U\<close> is not empty), at once or when it resumes after a
  pending answer, the log of the leg is: the hook, the before-redirect notification, and
  one redirect notification to the issuer with the new URL \<open>U\<close>, the status code 307
  and fabricated headers whose \<open>Location\<close> line names \<open>U\<close>. No call on the transport
  is in the log, and the record is left with its client binding, its header-client
  receiver and its loader unbound.
\<close>

theorem before_request_redirect_is_internal:
  assumes "U \<noteq> []" and "info r = Some i"
  shows
    "let redirect_info = RedirectInfo_default
           \<lparr>status_code := 307, new_method := method (request r),
            new_url := U, new_site_for_cookies := U\<rparr>;
         head = \<lparr>response_headers = Some (HttpResponseHeaders (AssembleRawHeaders net
                    (''HTTP/1.1 307 Internal Redirect'' @ LF @
                     ''Location: '' @ U @ LF @
                     ''Non-Authoritative-Reason: WebRequest API'' @ LF @ LF @
                     (if ShouldEnableOutOfBlinkCors factory then []
                      else case GetHeader ''Origin'' (headers (request r)) of
                             None \<Rightarrow> []
                           | Some http_origin \<Rightarrow> CorsHeaders http_origin)))),
                 encoded_data_length = 0\<rparr>
     in (api_OnBeforeRequest (web_request_api factory) i (request r) = (code, U) \<and>
         code \<noteq> ERR_BLOCKED_BY_CLIENT \<and> code \<noteq> ERR_IO_PENDING \<longrightarrow>
           (\<exists>i' rq' r'.
              RestartInternal net factory r =
                ([Api_OnBeforeRequest i (request r),
                  Api_OnBeforeRedirect i' rq' U,
                  Client_OnReceiveRedirect redirect_info head],
                 Alive r') \<and>
              proxied_client_binding r' = Unbound \<and> header_client_receiver r' = Unbound \<and>
              \<not> target_loader_is_bound r')) \<and>
        (\<exists>i' rq' r'.
           handle net factory (Resume_OnBeforeRequest U net_OK) r =
             ([Api_OnBeforeRedirect i' rq' U, Client_OnReceiveRedirect redirect_info head],
              Alive r') \<and>
           proxied_client_binding r' = Unbound \<and> header_client_receiver r' = Unbound \<and>
           \<not> target_loader_is_bound r') \<and>
        Restart net factory r0 = RestartInternal net factory (UpdateRequestInfo net factory r0) \<and>
        info (UpdateRequestInfo net factory r0) \<noteq> None \<and>
        (\<exists>r1. FollowRedirect net factory removed modified new_url_opt r0 =
                 RestartInternal net factory r1 \<and> info r1 \<noteq> None)"
proof -
  let ?r2 = "r\<lparr>request_completed := False,
               completed_history := completed_history r @ [False], redirect_url := U\<rparr>"
  let ?r3 = "r\<lparr>redirect_url := U\<rparr>"
  have sync: "RestartInternal net factory r =
                emit [Api_OnBeforeRequest i (request r)]
                  (HandleBeforeRequestRedirect net factory ?r2)"
    if "api_OnBeforeRequest (web_request_api factory) i (request r) = (code, U)"
      and "code \<noteq> ERR_BLOCKED_BY_CLIENT" and "code \<noteq> ERR_IO_PENDING"
    using that assms
    by (simp add: RestartInternal_def Let_def ContinueToStartRequest_def
          ContinueToBeforeSendHeaders_def is_empty_def net_OK_def)
  have resumed: "handle net factory (Resume_OnBeforeRequest U net_OK) r =
                   HandleBeforeRequestRedirect net factory ?r3"
    using assms
    by (simp add: ContinueToStartRequest_def ContinueToBeforeSendHeaders_def is_empty_def)
  have i2: "info ?r2 = Some i" and i3: "info ?r3 = Some i" using assms by simp_all
  show ?thesis
    using sync resumed
      HandleBeforeRequestRedirect_result [OF i2, of net factory]
      HandleBeforeRequestRedirect_result [OF i3, of net factory]
      FollowRedirect_enters_RestartInternal [of net factory removed modified new_url_opt r0]
      UpdateRequestInfo_sets_info [of net factory r0]
    by (auto simp add: Let_def emit_def Restart_def)
qed

theorem before_request_redirect_is_internal_witness:
  "info example_started \<noteq> None \<and>
   fst (api_OnBeforeRequest (web_request_api example_redirecting_factory)
          (the (info example_started)) (request example_started)) = net_OK \<and>
   snd (api_OnBeforeRequest (web_request_api example_redirecting_factory)
          (the (info example_started)) (request example_started)) = ''http://b/y'' \<and>
   filter is_redirect_event
     (fst (RestartInternal example_net example_redirecting_factory example_started)) =
     [Client_OnReceiveRedirect
        \<lparr>status_code = 307, new_method = ''POST'', new_url = ''http://b/y'',
         new_site_for_cookies = ''http://b/y'', new_referrer = [], new_referrer_policy = 0\<rparr>
        \<lparr>response_headers = Some (HttpResponseHeaders
           (''HTTP/1.1 307 Internal Redirect'' @ LF @
            ''Location: http://b/y'' @ LF @
            ''Non-Authoritative-Reason: WebRequest API'' @ LF @ LF)),
         encoded_data_length = 0\<rparr>] \<and>
   filter is_transport_call
     (fst (RestartInternal example_net example_redirecting_factory example_started)) = []"
proof -
  have n: "info example_started \<noteq> None" by code_simp
  then obtain i where hi: "info example_started = Some i" by auto
  have h: "api_OnBeforeRequest (web_request_api example_redirecting_factory)
             i (request example_started) = (net_OK, ''http://b/y'')"
    by (simp add: example_redirecting_factory_def example_api_def)
  have u: "''http://b/y'' \<noteq> []" by simp
  have c: "net_OK \<noteq> ERR_BLOCKED_BY_CLIENT" "net_OK \<noteq> ERR_IO_PENDING"
    by (simp_all add: net_OK_def ERR_BLOCKED_BY_CLIENT_def ERR_IO_PENDING_def)
  have m: "method (request example_started) = ''POST''" by code_simp
  have f: "ShouldEnableOutOfBlinkCors example_redirecting_factory"
    by (simp add: example_redirecting_factory_def example_factory_def)
  have a: "AssembleRawHeaders example_net = (\<lambda>s. s)"
    by (simp add: example_net_def)
  from before_request_redirect_is_internal
         [OF u hi, where net = example_net
            and factory = example_redirecting_factory and code = net_OK
            and ?r0.0 = example_record and removed = "[]" and modified = "[]"
            and new_url_opt = None]
  obtain i' rq' r' where
    "RestartInternal example_net example_redirecting_factory example_started =
       ([Api_OnBeforeRequest i (request example_started),
         Api_OnBeforeRedirect i' rq' ''http://b/y'',
         Client_OnReceiveRedirect
           (RedirectInfo_default
              \<lparr>status_code := 307, new_method := ''POST'',
               new_url := ''http://b/y'', new_site_for_cookies := ''http://b/y''\<rparr>)
           \<lparr>response_headers = Some (HttpResponseHeaders
              (''HTTP/1.1 307 Internal Redirect'' @ LF @
               ''Location: '' @ ''http://b/y'' @ LF @
               ''Non-Authoritative-Reason: WebRequest API'' @ LF @ LF @ [])),
            encoded_data_length = 0\<rparr>],
        Alive r')"
    unfolding Let_def using h c m f a by auto
  then show ?thesis
    using h hi n by (simp add: RedirectInfo_default_def)
qed

text \<open>
  Claim C5. When the before-request hook returns cancel synchronously, the log of the
  leg is the hook, the error completion \<open>ERR_BLOCKED_BY_CLIENT\<close> to the issuer and
  the error notification to the listener, and the record asks the factory to remove it.
  No loader is created and no call on the transport is in the log; this holds for a leg
  started by \<^verbatim>\<open>Restart\<close> and for one started by \<^verbatim>\<open>FollowRedirect\<close>, which both
  enter \<^verbatim>\<open>RestartInternal\<close>, on a record with its info, without a call of their own.
\<close>

theorem before_request_cancel_contacts_no_transport:
  assumes "info r = Some i"
    and "fst (api_OnBeforeRequest (web_request_api factory) i (request r)) =
             ERR_BLOCKED_BY_CLIENT"
  shows "RestartInternal net factory r =
           ([Api_OnBeforeRequest i (request r),
             Client_OnComplete (URLLoaderCompletionStatus ERR_BLOCKED_BY_CLIENT),
             Api_OnErrorOccurred i (request r) ERR_BLOCKED_BY_CLIENT],
            RemoveRequested (network_service_request_id r) (request_id r)) \<and>
         Restart net factory r0 = RestartInternal net factory (UpdateRequestInfo net factory r0) \<and>
         info (UpdateRequestInfo net factory r0) \<noteq> None \<and>
         (\<exists>r1. FollowRedirect net factory removed modified new_url_opt r0 =
                  RestartInternal net factory r1 \<and> info r1 \<noteq> None)"
  using assms FollowRedirect_enters_RestartInternal [of net factory removed modified new_url_opt r0]
    UpdateRequestInfo_sets_info [of net factory r0]
  by (simp add: RestartInternal_def OnRequestError_def Let_def split_def emit_def Restart_def
        URLLoaderCompletionStatus_def)

theorem before_request_cancel_contacts_no_transport_witness:
  "info example_started \<noteq> None \<and>
   fst (api_OnBeforeRequest (web_request_api example_cancelling_factory)
          (the (info example_started)) (request example_started)) = ERR_BLOCKED_BY_CLIENT \<and>
   filter is_transport_call
     (fst (RestartInternal example_net example_cancelling_factory example_started)) = [] \<and>
   filter is_terminal_event
     (fst (RestartInternal example_net example_cancelling_factory example_started)) =
     [Client_OnComplete (URLLoaderCompletionStatus ERR_BLOCKED_BY_CLIENT)] \<and>
   snd (RestartInternal example_net example_cancelling_factory example_started) =
     RemoveRequested 7 1"
proof -
  have n0: "info example_started \<noteq> None" by code_simp
  then obtain i where hi: "info example_started = Some i" by auto
  have h: "fst (api_OnBeforeRequest (web_request_api example_cancelling_factory)
             i (request example_started)) = ERR_BLOCKED_BY_CLIENT"
    by (simp add: example_cancelling_factory_def example_api_def)
  have n: "network_service_request_id example_started = 7" by code_simp
  have k: "request_id example_started = 1" by code_simp
  show ?thesis
    using before_request_cancel_contacts_no_transport
            [OF hi h, where net = example_net and ?r0.0 = example_record
               and removed = "[]" and modified = "[]" and new_url_opt = None] h hi n k n0
    by simp
qed

subsection \<open>The pass-through path of the factory\<close>

text \<open>
  Claim C7. A request whose scheme has no interception handler and is not the file
  scheme, arriving while no listener is registered, is handed to the transport with the
  arguments it came with, and the factory is unchanged: no record is added to
  \<open>requests\<close>, no entry to the identifier table, and the identifier counter stays.
\<close>

theorem no_listener_passes_through:
  assumes "map_of (intercepted_handlers factory) (scheme (url rq)) = None"
    and "\<not> SchemeIsFile (url rq)"
    and "\<not> HasListener (web_request_api factory)"
  shows "CreateLoaderAndStart net routing req_id opts rq factory =
           ([TargetFactory_CreateLoaderAndStart routing req_id opts rq], Running factory)"
  using assms by (simp add: CreateLoaderAndStart_def)

theorem no_listener_passes_through_witness:
  "map_of (intercepted_handlers example_idle_factory) (scheme (url example_request)) = None \<and>
   \<not> SchemeIsFile (url example_request) \<and>
   \<not> HasListener (web_request_api example_idle_factory) \<and>
   CreateLoaderAndStart example_net 5 7 0 example_request example_idle_factory =
     ([TargetFactory_CreateLoaderAndStart 5 7 0 example_request], Running example_idle_factory)"
proof -
  have h1: "map_of (intercepted_handlers example_idle_factory) (scheme (url example_request)) = None"
    by (simp add: example_idle_factory_def example_factory_def)
  have h2: "\<not> SchemeIsFile (url example_request)"
    by (simp add: SchemeIsFile_def scheme_def example_request_def)
  have h3: "\<not> HasListener (web_request_api example_idle_factory)"
    by (simp add: example_idle_factory_def)
  show ?thesis
    using no_listener_passes_through [OF h1 h2 h3, of example_net 5 7 0] h1 h2 h3
    by simp
qed

subsection \<open>Completion and error\<close>

text \<open>
  Every method settles the record it is called on: it delivers a terminal event to the
  issuer only together with the request to remove the record, then exactly one, or none
  where the guard of \<^verbatim>\<open>OnRequestError\<close> withholds it. One lemma for each method,
  callees first.
\<close>

lemma settles_emit:
  "filter is_terminal_event es = [] \<Longrightarrow> settles g n k (emit es res) = settles g n k res"
  by (simp add: settles_def split: Outcome.splits)

lemma settles_OnRequestError:
  "\<lbrakk>info r \<noteq> None; g = request_completed r; n = network_service_request_id r;
    k = request_id r\<rbrakk> \<Longrightarrow> settles g n k (OnRequestError factory status r)"
  by (auto simp add: settles_def OnRequestError_def)

lemma settles_ContinueToBeforeRedirect:
  "\<lbrakk>info r \<noteq> None; g = request_completed r; n = network_service_request_id r;
    k = request_id r\<rbrakk> \<Longrightarrow> settles g n k (ContinueToBeforeRedirect factory ri code r)"
  by (auto simp add: ContinueToBeforeRedirect_def settles_OnRequestError Let_def
        split: option.splits)
     (simp_all add: settles_def)

lemma settles_HandleBeforeRequestRedirect:
  "\<lbrakk>info r \<noteq> None; g = request_completed r; n = network_service_request_id r;
    k = request_id r\<rbrakk> \<Longrightarrow> settles g n k (HandleBeforeRequestRedirect net factory r)"
  unfolding HandleBeforeRequestRedirect_def Let_def
  by (rule settles_ContinueToBeforeRedirect) simp_all

lemma settles_ContinueToStartRequest:
  "\<lbrakk>info r \<noteq> None; g = request_completed r; n = network_service_request_id r;
    k = request_id r\<rbrakk> \<Longrightarrow> settles g n k (ContinueToStartRequest net factory code r)"
  by (simp add: ContinueToStartRequest_def settles_OnRequestError
        settles_HandleBeforeRequestRedirect Let_def)
     (simp add: settles_def)

lemma settles_ContinueToSendHeaders:
  "\<lbrakk>info r \<noteq> None; g = request_completed r; n = network_service_request_id r;
    k = request_id r\<rbrakk> \<Longrightarrow> settles g n k (ContinueToSendHeaders net factory rem st code r)"
  by (auto simp add: ContinueToSendHeaders_def settles_OnRequestError settles_emit Let_def
        split_def settles_ContinueToStartRequest split: option.splits)
     (simp_all add: settles_def)

lemma settles_ContinueToBeforeSendHeaders:
  "\<lbrakk>info r \<noteq> None; g = request_completed r; n = network_service_request_id r;
    k = request_id r\<rbrakk> \<Longrightarrow> settles g n k (ContinueToBeforeSendHeaders net factory code r)"
  by (auto simp add: ContinueToBeforeSendHeaders_def settles_OnRequestError settles_emit
        Let_def split_def settles_ContinueToSendHeaders settles_HandleBeforeRequestRedirect
        split: option.splits)
     (simp_all add: settles_def)

lemma settles_RestartInternal:
  "\<lbrakk>info r \<noteq> None; n = network_service_request_id r; k = request_id r\<rbrakk> \<Longrightarrow>
   settles False n k (RestartInternal net factory r)"
  by (auto simp add: RestartInternal_def settles_OnRequestError settles_emit
        Let_def split_def settles_ContinueToBeforeSendHeaders settles_ContinueToStartRequest
        split: option.splits)
     (simp_all add: settles_def)

lemma settles_FollowRedirect:
  "\<lbrakk>n = network_service_request_id r; k = request_id r\<rbrakk> \<Longrightarrow>
   settles False n k (FollowRedirect net factory a b c r)"
  by (auto simp add: FollowRedirect_def Let_def UpdateRequestInfo_def settles_RestartInternal)

lemma settles_ContinueToResponseStarted:
  "\<lbrakk>info r \<noteq> None; g = request_completed r; n = network_service_request_id r;
    k = request_id r\<rbrakk> \<Longrightarrow> settles g n k (ContinueToResponseStarted net factory code r)"
  by (auto simp add: ContinueToResponseStarted_def settles_OnRequestError Let_def
        settles_ContinueToBeforeRedirect split: option.splits)
     (simp_all add: settles_def)

lemma settles_ContinueToHandleOverrideHeaders:
  "\<lbrakk>info r \<noteq> None; g = request_completed r; n = network_service_request_id r;
    k = request_id r\<rbrakk> \<Longrightarrow>
   settles g n k (ContinueToHandleOverrideHeaders net factory code r)"
  by (auto simp add: ContinueToHandleOverrideHeaders_def settles_OnRequestError Let_def)
     (simp_all add: settles_def)

lemma settles_Run:
  "\<lbrakk>info r \<noteq> None; g = request_completed r; n = network_service_request_id r;
    k = request_id r\<rbrakk> \<Longrightarrow> settles g n k (Run net factory c code r)"
  by (cases c) (simp_all add: settles_ContinueToResponseStarted
        settles_ContinueToBeforeRedirect settles_ContinueToHandleOverrideHeaders)

lemma settles_HandleResponseOrRedirectHeaders:
  "\<lbrakk>info r \<noteq> None; g = request_completed r; n = network_service_request_id r;
    k = request_id r\<rbrakk> \<Longrightarrow>
   settles g n k (HandleResponseOrRedirectHeaders net factory c r)"
  by (auto simp add: HandleResponseOrRedirectHeaders_def settles_OnRequestError settles_emit
        Let_def split_def settles_Run split: option.splits)
     (simp_all add: settles_def)

lemma settles_handle:
  assumes "info r \<noteq> None"
  shows "settles (error_suppressed r m) (network_service_request_id r) (request_id r)
           (handle net factory m r)"
proof (cases m)
  case Call_Restart
  then show ?thesis
    by (simp add: Restart_def UpdateRequestInfo_def settles_RestartInternal)
next
  case (Call_FollowRedirect a b c)
  then show ?thesis by (simp add: settles_FollowRedirect)
next
  case (Call_OnReceiveResponse head)
  then show ?thesis
    using assms
    by (auto simp add: OnReceiveResponse_def settles_HandleResponseOrRedirectHeaders
          settles_ContinueToResponseStarted split: option.splits)
       (simp add: settles_def)
next
  case (Call_OnReceiveRedirect ri head)
  then show ?thesis
    using assms
    by (auto simp add: OnReceiveRedirect_def settles_HandleResponseOrRedirectHeaders
          settles_ContinueToBeforeRedirect split: option.splits)
       (simp add: settles_def)
next
  case (Call_OnComplete status)
  then show ?thesis
    using assms
    by (auto simp add: OnComplete_def settles_OnRequestError) (simp add: settles_def)
next
  case Call_OnLoaderCreated
  then show ?thesis using assms by (simp add: OnLoaderCreated_def settles_def)
next
  case (Call_OnBeforeSendHeaders hs)
  then show ?thesis
    using assms
    by (auto simp add: OnBeforeSendHeaders_def settles_ContinueToBeforeSendHeaders)
       (simp add: settles_def)
next
  case (Call_OnHeadersReceived hs)
  then show ?thesis
    using assms
    by (auto simp add: OnHeadersReceived_def settles_HandleResponseOrRedirectHeaders)
       (simp add: settles_def)
next
  case (Call_OnRequestError status)
  then show ?thesis using assms by (simp add: settles_OnRequestError)
next
  case (Resume_OnBeforeRequest u code)
  then show ?thesis
    using assms
    by (simp add: settles_ContinueToBeforeSendHeaders settles_ContinueToStartRequest)
next
  case (Resume_OnBeforeSendHeaders hs rem st code)
  then show ?thesis using assms by (simp add: settles_ContinueToSendHeaders)
next
  case (Resume_OnHeadersReceived c ov u code)
  then show ?thesis using assms by (simp add: settles_Run)
qed

lemma not_registered_RemoveRequest:
  "\<not> registered req_id (RemoveRequest nsr_id req_id factory)"
  by (simp add: registered_def RemoveRequest_def MaybeDeleteThis_def delete_conv')

lemma well_registered_RemoveRequest:
  "well_registered req_id (RemoveRequest nsr_id req_id factory)"
  by (simp add: well_registered_def RemoveRequest_def MaybeDeleteThis_def delete_conv')

lemma deliver_dropped: "\<not> registered req_id w \<Longrightarrow> deliver net req_id m w = ([], w)"
  by (cases w) (simp_all add: registered_def deliver_def dispatch_def)

lemma deliver_all_dropped:
  "\<not> registered req_id w \<Longrightarrow> deliver_all net req_id ms w = ([], w)"
  by (induction ms) (simp_all add: deliver_dropped)

lemma RemoveRequest_idem:
  "RemoveRequest nsr_id req_id factory = Running factory' \<Longrightarrow>
   RemoveRequest nsr_id req_id factory' = Running factory'"
  by (auto simp add: RemoveRequest_def MaybeDeleteThis_def delete_idem split: if_splits)

lemma deliver_registered:
  assumes "map_of (requests factory) req_id = Some r"
  shows "deliver net req_id m (Running factory) =
           (fst (handle net factory m r),
            case snd (handle net factory m r) of
              Alive r' \<Rightarrow> Running (factory\<lparr>requests := AList.update req_id r' (requests factory)\<rparr>)
            | RemoveRequested n k \<Rightarrow> RemoveRequest n k factory
            | Crashed \<Rightarrow> ProcessCrashed)"
  using assms
  by (simp add: deliver_def dispatch_def split_def split: Outcome.splits)

lemma deliver_step:
  assumes "well_registered req_id w"
  shows "well_registered req_id (snd (deliver net req_id m w)) \<and>
         length (filter is_terminal_event (fst (deliver net req_id m w))) \<le> 1 \<and>
         (registered req_id (snd (deliver net req_id m w)) \<longrightarrow>
            filter is_terminal_event (fst (deliver net req_id m w)) = [])"
proof (cases "registered req_id w")
  case False
  then show ?thesis using assms by (simp add: deliver_dropped)
next
  case True
  then obtain factory r where w: "w = Running factory"
    and r: "map_of (requests factory) req_id = Some r"
    by (cases w) (auto simp add: registered_def)
  have ok: "request_id r = req_id" "info r \<noteq> None"
    using assms w r by (simp_all add: well_registered_def)
  note st = settles_handle [OF ok(2), of m net factory]
  show ?thesis
  proof (cases "snd (handle net factory m r)")
    case (Alive r')
    then show ?thesis
      using st ok(1)
      by (simp add: w deliver_registered [OF r] settles_def well_registered_def
            registered_def update_conv')
  next
    case (RemoveRequested n k)
    then have "k = req_id"
      and "length (filter is_terminal_event (fst (handle net factory m r))) \<le> 1"
      using st ok(1) by (simp_all add: settles_def split: if_splits)
    then show ?thesis
      using RemoveRequested
      by (simp add: w deliver_registered [OF r] not_registered_RemoveRequest
            well_registered_RemoveRequest)
  next
    case Crashed
    then show ?thesis
      using st
      by (simp add: w deliver_registered [OF r] settles_def well_registered_def
            registered_def)
  qed
qed

lemma deliver_all_once:
  assumes "well_registered req_id w"
  shows "well_registered req_id (snd (deliver_all net req_id ms w)) \<and>
         length (filter is_terminal_event (fst (deliver_all net req_id ms w))) \<le> 1 \<and>
         (registered req_id (snd (deliver_all net req_id ms w)) \<longrightarrow>
            filter is_terminal_event (fst (deliver_all net req_id ms w)) = [])"
  using assms
proof (induction ms arbitrary: w)
  case Nil
  then show ?case by simp
next
  case (Cons m ms)
  let ?w1 = "snd (deliver net req_id m w)"
  let ?es = "fst (deliver net req_id m w)"
  note step = deliver_step [OF Cons.prems, of net m]
  show ?case
  proof (cases "registered req_id ?w1")
    case True
    then have "filter is_terminal_event ?es = []" using step by simp
    then show ?thesis
      using Cons.IH [of ?w1] step by (simp add: split_def Let_def)
  next
    case False
    then show ?thesis
      using step by (simp add: split_def Let_def deliver_all_dropped)
  qed
qed

text \<open>
  Claim C2, as the code has it. Take a registered record with its info and any sequence
  of calls for it: calls of the issuer, the transport and the header client, the
  connection-error handler, and resumptions of pending hooks with any result code. The
  issuer receives at most one terminal event, and none while the record is registered; a
  record that is still registered afterwards again answers to its identifier and has its
  info, so that all of this holds for it anew. Whenever a call ends in the removal of the record, whichever way it enters the
  completion or the error path (a completion or an error from outside, a hook that
  cancels, a continuation resumed with an error code), the issuer has received exactly
  one terminal event, with one exception that \<^verbatim>\<open>OnRequestError\<close> guards: when the
  completed flag is set at that moment, that is after the redirect of the leg has been
  delivered and before the issuer follows it, the error path delivers no terminal event.
  In both cases the record is deregistered, every later call for it delivers nothing, and
  \<^verbatim>\<open>RemoveRequest\<close> applied again changes nothing.
\<close>

theorem terminal_event_delivered_once:
  assumes "map_of (requests factory) req_id = Some r"
    and "request_id r = req_id"
    and "info r = Some i"
  shows "length (filter is_terminal_event
           (fst (deliver_all net req_id ms (Running factory)))) \<le> 1 \<and>
         (registered req_id (snd (deliver_all net req_id ms (Running factory))) \<longrightarrow>
            filter is_terminal_event (fst (deliver_all net req_id ms (Running factory))) = []) \<and>
         well_registered req_id (snd (deliver_all net req_id ms (Running factory))) \<and>
         (snd (handle net factory m r) = RemoveRequested n k \<longrightarrow>
            length (filter is_terminal_event
              (fst (deliver_all net req_id (m # cs) (Running factory)))) =
              (if error_suppressed r m then 0 else 1) \<and>
            \<not> registered req_id (snd (deliver_all net req_id (m # cs) (Running factory)))) \<and>
         (\<forall>factory'.
            RemoveRequest (network_service_request_id r) req_id factory = Running factory' \<longrightarrow>
            RemoveRequest (network_service_request_id r) req_id factory' = Running factory')"
proof -
  have wr: "well_registered req_id (Running factory)"
    using assms by (simp add: well_registered_def)
  have trigger:
    "length (filter is_terminal_event
       (fst (deliver_all net req_id (m # cs) (Running factory)))) =
       (if error_suppressed r m then 0 else 1) \<and>
     \<not> registered req_id (snd (deliver_all net req_id (m # cs) (Running factory)))"
    if rem: "snd (handle net factory m r) = RemoveRequested n k"
  proof -
    have i: "info r \<noteq> None" using assms by simp
    have s: "n = network_service_request_id r \<and> k = req_id \<and>
             length (filter is_terminal_event (fst (handle net factory m r))) =
               (if error_suppressed r m then 0 else 1)"
      using settles_handle [OF i, of m net factory] rem assms(2)
      by (simp add: settles_def)
    have first: "deliver net req_id m (Running factory) =
                   (fst (handle net factory m r), RemoveRequest n req_id factory)"
      using deliver_registered [OF assms(1), of net m] rem s by simp
    show ?thesis
      using first s
      by (simp add: split_def Let_def deliver_all_dropped not_registered_RemoveRequest)
  qed
  show ?thesis
    using deliver_all_once [OF wr, of net ms] trigger
    by (simp add: RemoveRequest_idem)
qed

theorem terminal_event_delivered_once_witness:
  "map_of (requests example_running) 1 = Some example_started \<and>
   request_id example_started = 1 \<and>
   info example_started \<noteq> None \<and>
   \<not> request_completed example_started \<and>
   snd (handle example_net example_running
          (Resume_OnHeadersReceived ToResponseStarted None [] ERR_ABORTED) example_started) =
     RemoveRequested 7 1 \<and>
   length (filter is_terminal_event
     (fst (deliver_all example_net 1
        [Resume_OnHeadersReceived ToResponseStarted None [] ERR_ABORTED,
         Call_OnRequestError (URLLoaderCompletionStatus ERR_ABORTED),
         Call_OnComplete (URLLoaderCompletionStatus net_OK)]
        (Running example_running)))) = 1 \<and>
   \<not> registered 1
     (snd (deliver_all example_net 1
        [Resume_OnHeadersReceived ToResponseStarted None [] ERR_ABORTED,
         Call_OnRequestError (URLLoaderCompletionStatus ERR_ABORTED),
         Call_OnComplete (URLLoaderCompletionStatus net_OK)]
        (Running example_running)))"
proof -
  have h1: "map_of (requests example_running) 1 = Some example_started"
    by (simp add: example_running_def)
  have h2: "request_id example_started = 1" by code_simp
  have n: "info example_started \<noteq> None" by code_simp
  then obtain i where h3: "info example_started = Some i" by auto
  have c: "\<not> request_completed example_started" by code_simp
  have h4: "snd (handle example_net example_running
                   (Resume_OnHeadersReceived ToResponseStarted None [] ERR_ABORTED)
                   example_started) = RemoveRequested 7 1"
    by code_simp
  have e: "\<not> error_suppressed example_started
               (Resume_OnHeadersReceived ToResponseStarted None [] ERR_ABORTED)"
    using c by simp
  show ?thesis
    using terminal_event_delivered_once
            [OF h1 h2 h3, where net = example_net and ms = "[]"
               and m = "Resume_OnHeadersReceived ToResponseStarted None [] ERR_ABORTED"
               and n = 7 and k = 1
               and cs = "[Call_OnRequestError (URLLoaderCompletionStatus ERR_ABORTED),
                          Call_OnComplete (URLLoaderCompletionStatus net_OK)]"]
          h1 h2 n c h4 e
    by simp
qed

text \<open>
  The claim C2 as stated fails: the request is created and started, the transport
  redirects it, and the issuer pipe disconnects before the redirect is followed. The
  error path runs and the record is deregistered, but the issuer has received no terminal
  event, neither at creation nor afterwards.
\<close>

theorem no_terminal_event_after_redirect_counterexample:
  "filter is_terminal_event
     (fst (CreateLoaderAndStart example_net 5 7 0 example_request example_factory)) = [] \<and>
   registered 1 (snd (CreateLoaderAndStart example_net 5 7 0 example_request example_factory)) \<and>
   filter is_terminal_event
     (fst (deliver_all example_net 1 example_redirect_then_abort
        (snd (CreateLoaderAndStart example_net 5 7 0 example_request example_factory)))) = [] \<and>
   \<not> registered 1
     (snd (deliver_all example_net 1 example_redirect_then_abort
        (snd (CreateLoaderAndStart example_net 5 7 0 example_request example_factory))))"
  by code_simp

subsection \<open>The completed flag\<close>

text \<open>
  Every method continues the history of the completed flag: a call that does not start a
  leg adds one \<open>True\<close> for every redirect it delivers to the issuer and nothing else,
  and a call that starts a leg first adds \<open>False\<close>. One lemma for each method, callees
  first.
\<close>

lemma continues_emit:
  "filter is_redirect_event es = [] \<Longrightarrow>
   continues_history h c (emit es res) = continues_history h c res"
  by (simp add: continues_history_def split: Outcome.splits)

lemma continues_OnRequestError: "continues_history h c (OnRequestError factory status r)"
  by (simp add: continues_history_def OnRequestError_def split: option.splits)

lemma continues_ContinueToBeforeRedirect:
  "\<lbrakk>h = completed_history r; c = request_completed r\<rbrakk> \<Longrightarrow>
   continues_history h c (ContinueToBeforeRedirect factory ri code r)"
  by (auto simp add: ContinueToBeforeRedirect_def continues_OnRequestError Let_def
        split: option.splits)
     (simp_all add: continues_history_def)

lemma continues_HandleBeforeRequestRedirect:
  "\<lbrakk>h = completed_history r; c = request_completed r\<rbrakk> \<Longrightarrow>
   continues_history h c (HandleBeforeRequestRedirect net factory r)"
  unfolding HandleBeforeRequestRedirect_def Let_def
  by (rule continues_ContinueToBeforeRedirect) simp_all

lemma continues_ContinueToStartRequest:
  "\<lbrakk>h = completed_history r; c = request_completed r\<rbrakk> \<Longrightarrow>
   continues_history h c (ContinueToStartRequest net factory code r)"
  by (simp add: ContinueToStartRequest_def continues_OnRequestError
        continues_HandleBeforeRequestRedirect Let_def)
     (simp add: continues_history_def)

lemma continues_ContinueToSendHeaders:
  "\<lbrakk>h = completed_history r; c = request_completed r\<rbrakk> \<Longrightarrow>
   continues_history h c (ContinueToSendHeaders net factory rem st code r)"
  by (auto simp add: ContinueToSendHeaders_def continues_OnRequestError continues_emit Let_def
        split_def continues_ContinueToStartRequest split: option.splits)
     (simp_all add: continues_history_def)

lemma continues_ContinueToBeforeSendHeaders:
  "\<lbrakk>h = completed_history r; c = request_completed r\<rbrakk> \<Longrightarrow>
   continues_history h c (ContinueToBeforeSendHeaders net factory code r)"
  by (auto simp add: ContinueToBeforeSendHeaders_def continues_OnRequestError continues_emit
        Let_def split_def continues_ContinueToSendHeaders
        continues_HandleBeforeRequestRedirect split: option.splits)
     (simp_all add: continues_history_def)

lemma continues_RestartInternal:
  "h = completed_history r @ [False] \<Longrightarrow>
   continues_history h False (RestartInternal net factory r)"
  by (auto simp add: RestartInternal_def continues_OnRequestError continues_emit
        Let_def split_def continues_ContinueToBeforeSendHeaders
        continues_ContinueToStartRequest split: option.splits)
     (simp_all add: continues_history_def)

lemma continues_FollowRedirect:
  "h = completed_history r @ [False] \<Longrightarrow>
   continues_history h False (FollowRedirect net factory a b c r)"
  by (auto simp add: FollowRedirect_def Let_def UpdateRequestInfo_def
        continues_RestartInternal)

lemma continues_ContinueToResponseStarted:
  "\<lbrakk>h = completed_history r; c = request_completed r\<rbrakk> \<Longrightarrow>
   continues_history h c (ContinueToResponseStarted net factory code r)"
  by (auto simp add: ContinueToResponseStarted_def continues_OnRequestError Let_def
        continues_ContinueToBeforeRedirect split: option.splits)
     (simp_all add: continues_history_def)

lemma continues_ContinueToHandleOverrideHeaders:
  "\<lbrakk>h = completed_history r; c = request_completed r\<rbrakk> \<Longrightarrow>
   continues_history h c (ContinueToHandleOverrideHeaders net factory code r)"
  by (auto simp add: ContinueToHandleOverrideHeaders_def continues_OnRequestError Let_def)
     (simp_all add: continues_history_def)

lemma continues_Run:
  "\<lbrakk>h = completed_history r; c = request_completed r\<rbrakk> \<Longrightarrow>
   continues_history h c (Run net factory k code r)"
  by (cases k) (simp_all add: continues_ContinueToResponseStarted
        continues_ContinueToBeforeRedirect continues_ContinueToHandleOverrideHeaders)

lemma continues_HandleResponseOrRedirectHeaders:
  "\<lbrakk>h = completed_history r; c = request_completed r\<rbrakk> \<Longrightarrow>
   continues_history h c (HandleResponseOrRedirectHeaders net factory k r)"
  by (auto simp add: HandleResponseOrRedirectHeaders_def continues_OnRequestError
        continues_emit Let_def split_def continues_Run split: option.splits)
     (simp_all add: continues_history_def)

lemma continues_handle_start:
  assumes "starts_leg m"
  shows "continues_history (completed_history r @ [False]) False (handle net factory m r)"
  using assms
  by (cases m)
     (simp_all add: Restart_def UpdateRequestInfo_def continues_RestartInternal
        continues_FollowRedirect)

lemma continues_handle_within:
  assumes "\<not> starts_leg m"
  shows "continues_history (completed_history r) (request_completed r) (handle net factory m r)"
proof (cases m)
  case Call_Restart
  then show ?thesis using assms by simp
next
  case (Call_FollowRedirect a b c)
  then show ?thesis using assms by simp
next
  case (Call_OnReceiveResponse head)
  then show ?thesis
    by (auto simp add: OnReceiveResponse_def continues_HandleResponseOrRedirectHeaders
          continues_ContinueToResponseStarted split: option.splits)
       (simp add: continues_history_def)
next
  case (Call_OnReceiveRedirect ri head)
  then show ?thesis
    by (auto simp add: OnReceiveRedirect_def continues_HandleResponseOrRedirectHeaders
          continues_ContinueToBeforeRedirect split: option.splits)
       (simp add: continues_history_def)
next
  case (Call_OnComplete status)
  then show ?thesis
    by (auto simp add: OnComplete_def continues_OnRequestError split: option.splits)
       (simp_all add: continues_history_def)
next
  case Call_OnLoaderCreated
  then show ?thesis by (simp add: OnLoaderCreated_def continues_history_def)
next
  case (Call_OnBeforeSendHeaders hs)
  then show ?thesis
    by (auto simp add: OnBeforeSendHeaders_def continues_ContinueToBeforeSendHeaders)
       (simp add: continues_history_def)
next
  case (Call_OnHeadersReceived hs)
  then show ?thesis
    by (auto simp add: OnHeadersReceived_def continues_HandleResponseOrRedirectHeaders)
       (simp add: continues_history_def)
next
  case (Call_OnRequestError status)
  then show ?thesis by (simp add: continues_OnRequestError)
next
  case (Resume_OnBeforeRequest u code)
  then show ?thesis
    by (simp add: continues_ContinueToBeforeSendHeaders continues_ContinueToStartRequest)
next
  case (Resume_OnBeforeSendHeaders hs rem st code)
  then show ?thesis by (simp add: continues_ContinueToSendHeaders)
next
  case (Resume_OnHeadersReceived k ov u code)
  then show ?thesis by (simp add: continues_Run)
qed

lemma history_within_leg:
  assumes "list_all (\<lambda>c. \<not> starts_leg (snd c)) ms"
    and "record_after net r ms = Alive r'"
  shows "completed_history r' =
           completed_history r @
           replicate (length (filter is_redirect_event (log_of net r ms))) True \<and>
         request_completed r' =
           (request_completed r \<or> filter is_redirect_event (log_of net r ms) \<noteq> [])"
  using assms
proof (induction ms arbitrary: r)
  case Nil
  then show ?case by simp
next
  case (Cons c ms)
  obtain factory m where c: "c = (factory, m)" by (cases c)
  have nm: "\<not> starts_leg m" and rest: "list_all (\<lambda>c. \<not> starts_leg (snd c)) ms"
    using Cons.prems(1) c by simp_all
  from Cons.prems(2) c obtain r1 where
    r1: "snd (handle net factory m r) = Alive r1" and after: "record_after net r1 ms = Alive r'"
    by (cases "snd (handle net factory m r)") simp_all
  have step: "completed_history r1 =
                completed_history r @
                replicate (length (filter is_redirect_event (fst (handle net factory m r)))) True"
    "request_completed r1 =
       (request_completed r \<or> filter is_redirect_event (fst (handle net factory m r)) \<noteq> [])"
    using continues_handle_within [OF nm, of r net factory] r1
    by (simp_all add: continues_history_def)
  show ?case
    using Cons.IH [OF rest after] step r1 c
    by (auto simp add: replicate_add)
qed

lemma rising_edges_leg:
  "rising_edges (False # replicate k True) = (if k = 0 then 0 else 1)"
proof -
  have t: "rising_edges (True # replicate j True) = 0" for j
    by (induction j) simp_all
  show ?thesis by (cases k) (simp_all add: t)
qed

lemma rising_edges_reset:
  "rising_edges (h @ False # t) = rising_edges h + rising_edges (False # t)"
  by (induction h rule: rising_edges.induct) simp_all

text \<open>
  Claim C3, as the code has it. The flag makes one transition from false to true on
  every leg on which a redirect is delivered to the issuer, not one over the lifetime of
  the record. Take a leg: a call of \<^verbatim>\<open>Restart\<close> or \<^verbatim>\<open>FollowRedirect\<close> on a record in
  any state, followed by any calls that start no leg, and let \<open>k\<close> be the number of
  redirects the leg delivers to the issuer. \<^verbatim>\<open>RestartInternal\<close> assigns the flag
  \<open>False\<close> at the start of the leg, the before-redirect finalize assigns it \<open>True\<close>
  at each delivered redirect, and nothing else assigns it: at the end of the leg the flag
  is set exactly if a redirect was delivered, and the leg has added to the history of the
  flag exactly one transition from false to true if a redirect was delivered, and none
  otherwise.
\<close>

theorem request_completed_rises_once_per_redirect_leg:
  assumes "starts_leg m0"
    and "list_all (\<lambda>c. \<not> starts_leg (snd c)) ms"
    and "record_after net r ((factory0, m0) # ms) = Alive r'"
    and "k = length (filter is_redirect_event (log_of net r ((factory0, m0) # ms)))"
  shows "completed_history r' = completed_history r @ False # replicate k True \<and>
         request_completed r' = (k \<noteq> 0) \<and>
         rising_edges (completed_history r') =
           rising_edges (completed_history r) + (if k = 0 then 0 else 1)"
proof -
  from assms(3) obtain r1 where
    r1: "snd (handle net factory0 m0 r) = Alive r1" and after: "record_after net r1 ms = Alive r'"
    by (cases "snd (handle net factory0 m0 r)") simp_all
  have first: "completed_history r1 =
                 (completed_history r @ [False]) @
                 replicate (length (filter is_redirect_event (fst (handle net factory0 m0 r)))) True"
    "request_completed r1 = (filter is_redirect_event (fst (handle net factory0 m0 r)) \<noteq> [])"
    using continues_handle_start [OF assms(1), of r net factory0] r1
    by (simp_all add: continues_history_def)
  have h: "completed_history r' = completed_history r @ False # replicate k True"
    and c: "request_completed r' = (k \<noteq> 0)"
    using history_within_leg [OF assms(2) after] first r1 assms(4)
    by (auto simp add: replicate_add)
  show ?thesis using h c by (simp add: rising_edges_reset rising_edges_leg)
qed

text \<open>
  On the example record after its first redirect the flag is set. The issuer follows and
  the listener redirects the new leg at before-request: within this one call the flag is
  reset and set again, which the values sampled before and after the call do not show and
  the history does.
\<close>

theorem request_completed_rises_once_per_redirect_leg_witness:
  "starts_leg (Call_FollowRedirect [] [] None) \<and>
   request_completed example_redirected \<and>
   completed_history example_redirected = [False, False, True] \<and>
   length (filter is_redirect_event
     (log_of example_net example_redirected
        [(example_redirecting_factory, Call_FollowRedirect [] [] None)])) = 1 \<and>
   history_after
     (record_after example_net example_redirected
        [(example_redirecting_factory, Call_FollowRedirect [] [] None)]) =
     [False, False, True, False, True] \<and>
   completed_after
     (record_after example_net example_redirected
        [(example_redirecting_factory, Call_FollowRedirect [] [] None)]) \<and>
   completed_values example_net example_redirected
     [(example_redirecting_factory, Call_FollowRedirect [] [] None)] = [True, True]"
proof -
  let ?leg = "(example_redirecting_factory, Call_FollowRedirect [] [] None) # []"
  have h1: "starts_leg (Call_FollowRedirect [] [] None)" by simp
  have h2: "list_all (\<lambda>c. \<not> starts_leg (snd c)) []" by simp
  have c: "request_completed example_redirected" by code_simp
  have h: "completed_history example_redirected = [False, False, True]" by code_simp
  have k: "length (filter is_redirect_event (log_of example_net example_redirected ?leg)) = 1"
    by code_simp
  have v: "completed_values example_net example_redirected ?leg = [True, True]"
    by code_simp
  have "completed_after (record_after example_net example_redirected ?leg)" by code_simp
  then obtain r' where h3: "record_after example_net example_redirected ?leg = Alive r'"
    by (cases "record_after example_net example_redirected ?leg") simp_all
  show ?thesis
    using request_completed_rises_once_per_redirect_leg [OF h1 h2 h3 k [symmetric]] h3 c h k v
    by simp
qed

text \<open>
  The claim C3 as stated fails: on a record that the transport redirects on two legs the
  flag is false, false, true, false, true between the calls, two transitions from false
  to true.
\<close>

theorem request_completed_rises_twice_counterexample:
  "completed_values example_net example_record example_two_redirects =
     [False, False, True, False, True] \<and>
   rising_edges (completed_values example_net example_record example_two_redirects) = 2"
  by code_simp

subsection \<open>Redirects\<close>

text \<open>
  No method gives the request a body: a record without one stays without, and hands no
  request with a body to the transport. One lemma for each method, callees first.
\<close>

lemma forwarded_requests_append [simp]:
  "forwarded_requests (es @ es') = forwarded_requests es @ forwarded_requests es'"
  by (induction es rule: forwarded_requests.induct) simp_all

lemma bodyless_emit:
  "bodyless (emit es res) =
     (list_all (\<lambda>rq. request_body rq = None) (forwarded_requests es) \<and> bodyless res)"
  by (auto simp add: bodyless_def)

lemma bodyless_OnRequestError: "bodyless (OnRequestError factory status r)"
  by (simp add: bodyless_def OnRequestError_def split: option.splits)

lemma bodyless_ContinueToBeforeRedirect:
  "request_body (request r) = None \<Longrightarrow> bodyless (ContinueToBeforeRedirect factory ri code r)"
  by (auto simp add: ContinueToBeforeRedirect_def bodyless_OnRequestError Let_def
        split: option.splits)
     (simp_all add: bodyless_def)

lemma bodyless_HandleBeforeRequestRedirect:
  "request_body (request r) = None \<Longrightarrow> bodyless (HandleBeforeRequestRedirect net factory r)"
  unfolding HandleBeforeRequestRedirect_def Let_def
  by (rule bodyless_ContinueToBeforeRedirect) simp

lemma bodyless_ContinueToStartRequest:
  "request_body (request r) = None \<Longrightarrow> bodyless (ContinueToStartRequest net factory code r)"
  by (simp add: ContinueToStartRequest_def bodyless_OnRequestError
        bodyless_HandleBeforeRequestRedirect Let_def)
     (simp add: bodyless_def)

lemma bodyless_ContinueToSendHeaders:
  "request_body (request r) = None \<Longrightarrow>
   bodyless (ContinueToSendHeaders net factory rem st code r)"
  by (auto simp add: ContinueToSendHeaders_def bodyless_OnRequestError bodyless_emit Let_def
        split_def bodyless_ContinueToStartRequest split: option.splits)
     (simp_all add: bodyless_def)

lemma bodyless_ContinueToBeforeSendHeaders:
  "request_body (request r) = None \<Longrightarrow>
   bodyless (ContinueToBeforeSendHeaders net factory code r)"
  by (auto simp add: ContinueToBeforeSendHeaders_def bodyless_OnRequestError bodyless_emit
        Let_def split_def bodyless_ContinueToSendHeaders bodyless_HandleBeforeRequestRedirect
        split: option.splits)
     (simp_all add: bodyless_def)

lemma bodyless_RestartInternal:
  "request_body (request r) = None \<Longrightarrow> bodyless (RestartInternal net factory r)"
  by (auto simp add: RestartInternal_def bodyless_OnRequestError bodyless_emit
        Let_def split_def bodyless_ContinueToBeforeSendHeaders bodyless_ContinueToStartRequest
        split: option.splits)
     (simp_all add: bodyless_def)

lemma bodyless_FollowRedirect:
  "request_body (request r) = None \<Longrightarrow> bodyless (FollowRedirect net factory a b c r)"
  by (auto simp add: FollowRedirect_def bodyless_emit Let_def UpdateRequestInfo_def
        bodyless_RestartInternal)

lemma bodyless_ContinueToResponseStarted:
  "request_body (request r) = None \<Longrightarrow> bodyless (ContinueToResponseStarted net factory code r)"
  by (auto simp add: ContinueToResponseStarted_def bodyless_OnRequestError Let_def
        bodyless_ContinueToBeforeRedirect split: option.splits)
     (simp_all add: bodyless_def)

lemma bodyless_ContinueToHandleOverrideHeaders:
  "request_body (request r) = None \<Longrightarrow>
   bodyless (ContinueToHandleOverrideHeaders net factory code r)"
  by (auto simp add: ContinueToHandleOverrideHeaders_def bodyless_OnRequestError Let_def)
     (simp_all add: bodyless_def)

lemma bodyless_Run:
  "request_body (request r) = None \<Longrightarrow> bodyless (Run net factory k code r)"
  by (cases k) (simp_all add: bodyless_ContinueToResponseStarted
        bodyless_ContinueToBeforeRedirect bodyless_ContinueToHandleOverrideHeaders)

lemma bodyless_HandleResponseOrRedirectHeaders:
  "request_body (request r) = None \<Longrightarrow>
   bodyless (HandleResponseOrRedirectHeaders net factory k r)"
  by (auto simp add: HandleResponseOrRedirectHeaders_def bodyless_OnRequestError bodyless_emit
        Let_def split_def bodyless_Run split: option.splits)
     (simp_all add: bodyless_def)

lemma bodyless_handle:
  assumes "request_body (request r) = None"
  shows "bodyless (handle net factory m r)"
proof (cases m)
  case Call_Restart
  then show ?thesis
    using assms by (simp add: Restart_def UpdateRequestInfo_def bodyless_RestartInternal)
next
  case (Call_FollowRedirect a b c)
  then show ?thesis using assms by (simp add: bodyless_FollowRedirect)
next
  case (Call_OnReceiveResponse head)
  then show ?thesis
    using assms
    by (auto simp add: OnReceiveResponse_def bodyless_HandleResponseOrRedirectHeaders
          bodyless_ContinueToResponseStarted split: option.splits)
       (simp add: bodyless_def)
next
  case (Call_OnReceiveRedirect ri head)
  then show ?thesis
    using assms
    by (auto simp add: OnReceiveRedirect_def bodyless_HandleResponseOrRedirectHeaders
          bodyless_ContinueToBeforeRedirect split: option.splits)
       (simp add: bodyless_def)
next
  case (Call_OnComplete status)
  then show ?thesis
    by (auto simp add: OnComplete_def bodyless_OnRequestError split: option.splits)
       (simp_all add: bodyless_def)
next
  case Call_OnLoaderCreated
  then show ?thesis using assms by (simp add: OnLoaderCreated_def bodyless_def)
next
  case (Call_OnBeforeSendHeaders hs)
  then show ?thesis
    using assms
    by (auto simp add: OnBeforeSendHeaders_def bodyless_ContinueToBeforeSendHeaders)
       (simp add: bodyless_def)
next
  case (Call_OnHeadersReceived hs)
  then show ?thesis
    using assms
    by (auto simp add: OnHeadersReceived_def bodyless_HandleResponseOrRedirectHeaders)
       (simp add: bodyless_def)
next
  case (Call_OnRequestError status)
  then show ?thesis by (simp add: bodyless_OnRequestError)
next
  case (Resume_OnBeforeRequest u code)
  then show ?thesis
    using assms
    by (simp add: bodyless_ContinueToBeforeSendHeaders bodyless_ContinueToStartRequest)
next
  case (Resume_OnBeforeSendHeaders hs rem st code)
  then show ?thesis using assms by (simp add: bodyless_ContinueToSendHeaders)
next
  case (Resume_OnHeadersReceived k ov u code)
  then show ?thesis using assms by (simp add: bodyless_Run)
qed

lemma bodyless_log_of:
  "request_body (request r) = None \<Longrightarrow>
   list_all (\<lambda>rq. request_body rq = None) (forwarded_requests (log_of net r calls))"
proof (induction calls arbitrary: r)
  case Nil
  then show ?case by simp
next
  case (Cons c calls)
  obtain factory m where c: "c = (factory, m)" by (cases c)
  have b: "bodyless (handle net factory m r)" using Cons.prems by (rule bodyless_handle)
  show ?case
    using b Cons.IH c
    by (cases "snd (handle net factory m r)") (simp_all add: bodyless_def)
qed

text \<open>
  Claim C9. When the before-redirect finalize runs for a redirect, real or synthetic,
  whose instructions set the method to \<open>GET\<close>, the request snapshot it leaves has the
  method \<open>GET\<close> and no body, and whatever calls follow on the record, every request it
  hands to the transport has no body.
\<close>

theorem redirect_to_GET_drops_body:
  assumes "new_method redirect_info = kGetMethod"
    and "snd (ContinueToBeforeRedirect factory redirect_info code r) = Alive r'"
  shows "method (request r') = kGetMethod \<and> request_body (request r') = None \<and>
         list_all (\<lambda>rq. request_body rq = None) (forwarded_requests (log_of net r' calls))"
proof -
  have "method (request r') = kGetMethod \<and> request_body (request r') = None"
    using assms
    by (auto simp add: ContinueToBeforeRedirect_def OnRequestError_def Let_def
        split: if_splits option.splits)
  then show ?thesis by (simp add: bodyless_log_of)
qed


theorem redirect_to_GET_drops_body_witness:
  "new_method example_redirect = kGetMethod \<and>
   snd (ContinueToBeforeRedirect example_factory example_redirect net_OK
          (example_started\<lparr>current_response := Some example_head\<rparr>)) =
     Alive example_redirected \<and>
   request_body (request example_started) = Some ''payload'' \<and>
   request_body (request example_redirected) = None \<and>
   map request_body
     (forwarded_requests (log_of example_net example_redirected example_next_legs)) = [None]"
proof -
  have h1: "new_method example_redirect = kGetMethod"
    by (simp add: example_redirect_def kGetMethod_def)
  have h2: "snd (ContinueToBeforeRedirect example_factory example_redirect net_OK
                   (example_started\<lparr>current_response := Some example_head\<rparr>)) =
              Alive example_redirected"
    by code_simp
  have h3: "request_body (request example_started) = Some ''payload''"
    by code_simp
  have h4: "length (forwarded_requests
              (log_of example_net example_redirected example_next_legs)) = 1"
    by code_simp
  have "list_all (\<lambda>rq. request_body rq = None)
          (forwarded_requests (log_of example_net example_redirected example_next_legs))"
    using redirect_to_GET_drops_body [OF h1 h2, of example_net example_next_legs] by simp
  then have "map request_body
               (forwarded_requests (log_of example_net example_redirected example_next_legs)) =
             [None]"
    using h4
    by (cases "forwarded_requests (log_of example_net example_redirected example_next_legs)")
       simp_all
  then show ?thesis
    using h1 h2 h3 redirect_to_GET_drops_body [OF h1 h2, of example_net example_next_legs]
    by simp
qed

text \<open>
  Claim C8, as the code has it. \<^verbatim>\<open>FollowRedirect\<close> applies the URL override and the
  header removals and additions to the request snapshot and recomputes the header mode,
  which is sniffed-header mode, so nothing is forwarded at once. The redirect parameters
  are buffered only when a transport loader is bound; then the transport receives them
  after the before-send-headers hook has answered, at once or on resumption, merged with
  the headers the listener removed and set. When no loader is bound nothing is buffered.
  In both cases the pipeline restarts from before-request.
\<close>

theorem FollowRedirect_buffers_when_loader_bound:
  assumes rq: "rq = (request r)\<lparr>url := (case new_url_opt of Some u \<Rightarrow> u | None \<Rightarrow> url (request r)),
                               headers := MergeFrom modified
                                            (fold RemoveHeader removed (headers (request r)))\<rparr>"
    and r1: "r1 = UpdateRequestInfo net factory (r\<lparr>request := rq\<rparr>)"
    and i1: "info r1 = Some i1"
    and p: "params = \<lparr>params_removed_headers = removed, params_modified_headers = modified,
                      params_new_url = new_url_opt\<rparr>"
  shows "\<not> current_request_uses_header_client r1 \<and>
         FollowRedirect net factory removed modified new_url_opt r =
           RestartInternal net factory
             (if target_loader_is_bound r
              then r1\<lparr>pending_follow_redirect_params := Some params\<rparr> else r1) \<and>
         (target_loader_is_bound r \<and>
          api_OnBeforeRequest (web_request_api factory) i1 rq = (c1, []) \<and>
          c1 \<noteq> ERR_BLOCKED_BY_CLIENT \<and> c1 \<noteq> ERR_IO_PENDING \<and>
          api_OnBeforeSendHeaders (web_request_api factory) i1 rq = (c2, hs) \<and>
          c2 \<noteq> ERR_BLOCKED_BY_CLIENT \<longrightarrow>
            fst (FollowRedirect net factory removed modified new_url_opt r) =
              [Api_OnBeforeRequest i1 rq, Api_OnBeforeSendHeaders i1 rq] @
              (if c2 = ERR_IO_PENDING then []
               else [Loader_FollowRedirect removed modified new_url_opt,
                     Api_OnSendHeaders i1 (rq\<lparr>headers := hs\<rparr>) hs]) \<and>
            (c2 = ERR_IO_PENDING \<longrightarrow>
               buffered_params (snd (FollowRedirect net factory removed modified new_url_opt r)) =
                 Some params)) \<and>
         (\<not> current_request_uses_header_client q \<and> target_loader_is_bound q \<and>
          info q = Some iq \<and> pending_follow_redirect_params q = Some params \<longrightarrow>
            fst (handle net factory' (Resume_OnBeforeSendHeaders hs' removed' set_headers net_OK) q) =
              [Loader_FollowRedirect (removed @ removed')
                 (MergeSetHeaders hs' set_headers modified) new_url_opt,
               Api_OnSendHeaders iq ((request q)\<lparr>headers := hs'\<rparr>) hs'] \<and>
            buffered_params
              (snd (handle net factory' (Resume_OnBeforeSendHeaders hs' removed' set_headers net_OK) q)) =
              None)"
proof -
  have mode: "\<not> current_request_uses_header_client r1"
    using r1 by (simp add: UpdateRequestInfo_def)
  have enter: "FollowRedirect net factory removed modified new_url_opt r =
           RestartInternal net factory
             (if target_loader_is_bound r
              then r1\<lparr>pending_follow_redirect_params := Some params\<rparr> else r1)"
    using rq r1 p by (simp add: FollowRedirect_def Let_def UpdateRequestInfo_def)
  have r1_request: "request r1 = rq" using r1 by (simp add: UpdateRequestInfo_def)
  have r1_loader: "target_loader_is_bound r1 = target_loader_is_bound r"
    using r1 by (simp add: UpdateRequestInfo_def)
  have leg: "fst (FollowRedirect net factory removed modified new_url_opt r) =
              [Api_OnBeforeRequest i1 rq, Api_OnBeforeSendHeaders i1 rq] @
              (if c2 = ERR_IO_PENDING then []
               else [Loader_FollowRedirect removed modified new_url_opt,
                     Api_OnSendHeaders i1 (rq\<lparr>headers := hs\<rparr>) hs]) \<and>
            (c2 = ERR_IO_PENDING \<longrightarrow>
               buffered_params (snd (FollowRedirect net factory removed modified new_url_opt r)) =
                 Some params)"
    if "target_loader_is_bound r"
      and "api_OnBeforeRequest (web_request_api factory) i1 rq = (c1, [])"
      and "c1 \<noteq> ERR_BLOCKED_BY_CLIENT" and "c1 \<noteq> ERR_IO_PENDING"
      and "api_OnBeforeSendHeaders (web_request_api factory) i1 rq = (c2, hs)"
      and "c2 \<noteq> ERR_BLOCKED_BY_CLIENT"
    using that mode r1_request r1_loader p i1
    by (simp add: enter RestartInternal_def ContinueToBeforeSendHeaders_def
          ContinueToSendHeaders_def ContinueToStartRequest_def Let_def emit_def is_empty_def
          MergeSetHeaders_def net_OK_def)
  have resume: "fst (handle net factory' (Resume_OnBeforeSendHeaders hs' removed' set_headers net_OK) q) =
              [Loader_FollowRedirect (removed @ removed')
                 (MergeSetHeaders hs' set_headers modified) new_url_opt,
               Api_OnSendHeaders iq ((request q)\<lparr>headers := hs'\<rparr>) hs'] \<and>
            buffered_params
              (snd (handle net factory' (Resume_OnBeforeSendHeaders hs' removed' set_headers net_OK) q)) =
              None"
    if "\<not> current_request_uses_header_client q" and "target_loader_is_bound q"
      and "info q = Some iq" and "pending_follow_redirect_params q = Some params"
    using that p
    by (simp add: ContinueToSendHeaders_def ContinueToStartRequest_def Let_def emit_def
          is_empty_def net_OK_def)
  show ?thesis using mode enter leg resume by blast
qed

theorem FollowRedirect_buffers_when_loader_bound_witness:
  "target_loader_is_bound example_started \<and>
   filter is_transport_call
     (fst (FollowRedirect example_net example_factory [''Accept''] [(''X-Added'', ''1'')] None
        example_started)) =
     [Loader_FollowRedirect [''Accept''] [(''X-Added'', ''1'')] None] \<and>
   filter is_transport_call
     (log_of example_net example_started (tl example_follow_after_internal_redirect)) =
     [Loader_FollowRedirect [''Accept''] [(''X-Added'', ''1''), (''X-Listener'', ''2'')] None]"
proof -
  define rq where "rq = (request example_started)
      \<lparr>url := (case None of Some u \<Rightarrow> u | None \<Rightarrow> url (request example_started)),
       headers := MergeFrom [(''X-Added'', ''1'')]
                    (fold RemoveHeader [''Accept''] (headers (request example_started)))\<rparr>"
  define r1 where "r1 = UpdateRequestInfo example_net example_factory
                          (example_started\<lparr>request := rq\<rparr>)"
  have "info r1 \<noteq> None" by (simp add: r1_def UpdateRequestInfo_def)
  then obtain i1 where hi: "info r1 = Some i1" by auto
  have h1: "target_loader_is_bound example_started" by code_simp
  have h2: "api_OnBeforeRequest (web_request_api example_factory) i1 rq = (net_OK, [])"
    by (simp add: example_factory_def example_api_def)
  have h3: "api_OnBeforeSendHeaders (web_request_api example_factory) i1 rq =
              (net_OK, headers rq)"
    by (simp add: example_factory_def example_api_def)
  have h4: "net_OK \<noteq> ERR_BLOCKED_BY_CLIENT" "net_OK \<noteq> ERR_IO_PENDING"
    by (simp_all add: net_OK_def ERR_BLOCKED_BY_CLIENT_def ERR_IO_PENDING_def)
  have h5: "filter is_transport_call
              (log_of example_net example_started (tl example_follow_after_internal_redirect)) =
            [Loader_FollowRedirect [''Accept''] [(''X-Added'', ''1''), (''X-Listener'', ''2'')]
               None]"
    by code_simp
  have "fst (FollowRedirect example_net example_factory [''Accept''] [(''X-Added'', ''1'')]
               None example_started) =
          [Api_OnBeforeRequest i1 rq, Api_OnBeforeSendHeaders i1 rq] @
          (if net_OK = ERR_IO_PENDING then []
           else [Loader_FollowRedirect [''Accept''] [(''X-Added'', ''1'')] None,
                 Api_OnSendHeaders i1 (rq\<lparr>headers := headers rq\<rparr>) (headers rq)])"
    using FollowRedirect_buffers_when_loader_bound
            [OF rq_def r1_def hi refl, where ?c1.0 = net_OK and ?c2.0 = net_OK
               and hs = "headers rq" and q = example_started and factory' = example_factory
               and hs' = "[]" and removed' = "[]" and set_headers = "[]" and iq = i1]
          h1 h2 h3 h4
    by blast
  then have "filter is_transport_call
               (fst (FollowRedirect example_net example_factory [''Accept'']
                  [(''X-Added'', ''1'')] None example_started)) =
             [Loader_FollowRedirect [''Accept''] [(''X-Added'', ''1'')] None]"
    using h4 by simp
  then show ?thesis using h1 h5 by simp
qed

text \<open>
  The claim C8 as stated fails where no transport loader is bound. The listener redirects
  the first leg, which resets the loader; the issuer follows with header changes while the
  before-send-headers hook is pending. The record then holds no buffered parameters, and
  after the hook has resumed the only call on the transport is the creation of a new
  loader: no redirect instruction is ever forwarded.
\<close>

theorem follow_without_loader_buffers_nothing_counterexample:
  "buffered_params
     (record_after example_net example_record
        (take 2 example_follow_after_internal_redirect)) = None \<and>
   filter is_transport_call
     (log_of example_net example_record (take 2 example_follow_after_internal_redirect)) = [] \<and>
   filter is_transport_call
     (log_of example_net example_record example_follow_after_internal_redirect) =
     [TargetFactory_CreateLoaderAndStart 5 7 0
        \<lparr>url = ''http://b/y'', method = ''POST'',
         headers = [(''X-Added'', ''1''), (''X-Listener'', ''2'')],
         request_body = Some ''payload'', site_for_cookies = ''http://b/y'',
         referrer = [], referrer_policy = 0, request_initiator = None,
         render_frame_id = 1\<rparr>]"
  by code_simp

end
